theory Spec2Isabelle
  imports Complex_Main "HOL-Library.Monad_Syntax" "HOL-Library.AList" "HOL-Library.Sublist"
begin

section \<open>JavaScript values\<close>

text \<open>
  The adapter (modules/adsmartxBidAdapter.js) works on untyped JavaScript data: bid
  requests, the bidder request, server responses and consent objects are plain objects
  handed over by the host. The embedding keeps them untyped. A number is a finite value,
  NaN or an infinity; an object is its list of own properties in insertion order; a
  string is its list of bytes.
\<close>

datatype jsnum = Fin rat | NaN | PosInf | NegInf

datatype jsval =
    JUndefined
  | JNull
  | JBool bool
  | JNum jsnum
  | JStr string
  | JArr "jsval list"
  | JObj "(string \<times> jsval) list"

text \<open>
  An abrupt completion (the TypeError of a property read on \<open>undefined\<close> or \<open>null\<close>, of a
  call of something that is not a function, of destructuring something that is not
  iterable) is the value \<open>None\<close>; a normal completion with value \<open>v\<close> is \<open>Some v\<close>.
\<close>

type_synonym 'a completion = "'a option"

text \<open>
  The two conversions between strings and numbers depend on the floating-point
  representation. They are parameters of the embedding: every theorem below holds for
  every choice of them.
\<close>

record js_runtime =
  StringToNumber :: "string \<Rightarrow> jsnum"
  NumberToString :: "jsnum \<Rightarrow> string"

definition num :: "nat \<Rightarrow> jsval" where
  "num n = JNum (Fin (of_nat n))"

fun truthy :: "jsval \<Rightarrow> bool" where
  "truthy JUndefined = False"
| "truthy JNull = False"
| "truthy (JBool b) = b"
| "truthy (JNum (Fin r)) = (r \<noteq> 0)"
| "truthy (JNum NaN) = False"
| "truthy (JNum PosInf) = True"
| "truthy (JNum NegInf) = True"
| "truthy (JStr s) = (s \<noteq> [])"
| "truthy (JArr xs) = True"
| "truthy (JObj ps) = True"

text \<open>\<open>v == null\<close>: true of \<open>null\<close> and \<open>undefined\<close> only.\<close>

fun nullish :: "jsval \<Rightarrow> bool" where
  "nullish JUndefined = True"
| "nullish JNull = True"
| "nullish v = False"

fun isArray :: "jsval \<Rightarrow> bool" where
  "isArray (JArr xs) = True"
| "isArray v = False"

text \<open>\<open>a || b\<close> on values.\<close>

definition js_or :: "jsval \<Rightarrow> jsval \<Rightarrow> jsval" where
  "js_or a b = (if truthy a then a else b)"

text \<open>The decimal name of an array index.\<close>

fun index_key :: "nat \<Rightarrow> string" where
  "index_key n =
     (if n < 10 then [''0123456789'' ! n]
      else index_key (n div 10) @ [''0123456789'' ! (n mod 10)])"

declare index_key.simps [simp del]

fun indexed :: "nat \<Rightarrow> jsval list \<Rightarrow> (string \<times> jsval) list" where
  "indexed i [] = []"
| "indexed i (x # xs) = (index_key i, x) # indexed (Suc i) xs"

definition lookup :: "(string \<times> jsval) list \<Rightarrow> string \<Rightarrow> jsval" where
  "lookup ps k = (case map_of ps k of None \<Rightarrow> JUndefined | Some v \<Rightarrow> v)"

text \<open>
  The property read \<open>v.k\<close>. It throws on \<open>undefined\<close> and \<open>null\<close>; a property that the
  value does not have reads as \<open>undefined\<close>. Arrays and strings have \<open>length\<close> and their
  index properties; booleans and numbers have none of the properties the adapter reads.
\<close>

fun get :: "jsval \<Rightarrow> string \<Rightarrow> jsval completion" where
  "get JUndefined k = None"
| "get JNull k = None"
| "get (JBool b) k = Some JUndefined"
| "get (JNum n) k = Some JUndefined"
| "get (JStr s) k =
     Some (if k = ''length'' then num (length s)
           else lookup (indexed 0 (map (\<lambda>c. JStr [c]) s)) k)"
| "get (JArr xs) k =
     Some (if k = ''length'' then num (length xs) else lookup (indexed 0 xs) k)"
| "get (JObj ps) k = Some (lookup ps k)"

text \<open>The optional read \<open>v?.k\<close>: \<open>undefined\<close> where \<open>v.k\<close> would throw.\<close>

definition opt_get :: "jsval \<Rightarrow> string \<Rightarrow> jsval" where
  "opt_get v k = (case get v k of None \<Rightarrow> JUndefined | Some x \<Rightarrow> x)"

text \<open>Whether an object has the own property \<open>k\<close> (whatever its value, also \<open>undefined\<close>).\<close>

fun has_key :: "jsval \<Rightarrow> string \<Rightarrow> bool" where
  "has_key (JObj ps) k = (k \<in> fst ` set ps)"
| "has_key v k = False"

text \<open>
  The assignment \<open>v.k = x\<close>, returning the updated object. The adapter is an ES module,
  so the code is strict: assigning a property of a primitive throws, as it does on
  \<open>undefined\<close> and \<open>null\<close>. The adapter assigns named properties to objects only; an array
  of this embedding has no place for a named property, and the assignment to one is not
  represented.
\<close>

fun set_prop :: "jsval \<Rightarrow> string \<Rightarrow> jsval \<Rightarrow> jsval completion" where
  "set_prop (JObj ps) k x = Some (JObj (AList.update k x ps))"
| "set_prop v k x = None"

subsection \<open>Conversions\<close>

fun join_with :: "string \<Rightarrow> string list \<Rightarrow> string" where
  "join_with sep [] = []"
| "join_with sep [s] = s"
| "join_with sep (s # t # ss) = s @ sep @ join_with sep (t # ss)"

text \<open>
  \<open>ToString\<close>. An array prints as its elements joined by commas, \<open>undefined\<close> and \<open>null\<close>
  elements as the empty string.
\<close>

fun to_string :: "js_runtime \<Rightarrow> jsval \<Rightarrow> string" where
  "to_string rt JUndefined = ''undefined''"
| "to_string rt JNull = ''null''"
| "to_string rt (JBool b) = (if b then ''true'' else ''false'')"
| "to_string rt (JNum n) = NumberToString rt n"
| "to_string rt (JStr s) = s"
| "to_string rt (JArr xs) =
     join_with '','' (map (\<lambda>x. if nullish x then [] else to_string rt x) xs)"
| "to_string rt (JObj ps) = ''[object Object]''"

text \<open>\<open>xs.join(sep)\<close> on an array.\<close>

definition array_join :: "js_runtime \<Rightarrow> jsval list \<Rightarrow> string \<Rightarrow> string" where
  "array_join rt xs sep =
     join_with sep (map (\<lambda>x. if nullish x then [] else to_string rt x) xs)"

text \<open>\<open>ToNumber\<close>, after \<open>ToPrimitive\<close> with hint number.\<close>

fun to_number :: "js_runtime \<Rightarrow> jsval \<Rightarrow> jsnum" where
  "to_number rt JUndefined = NaN"
| "to_number rt JNull = Fin 0"
| "to_number rt (JBool b) = (if b then Fin 1 else Fin 0)"
| "to_number rt (JNum n) = n"
| "to_number rt (JStr s) = StringToNumber rt s"
| "to_number rt (JArr xs) = StringToNumber rt (to_string rt (JArr xs))"
| "to_number rt (JObj ps) = NaN"

fun num_le_zero :: "jsnum \<Rightarrow> bool" where
  "num_le_zero (Fin r) = (r \<le> 0)"
| "num_le_zero NaN = False"
| "num_le_zero PosInf = False"
| "num_le_zero NegInf = True"

text \<open>The comparison \<open>v <= 0\<close>.\<close>

definition le_zero :: "js_runtime \<Rightarrow> jsval \<Rightarrow> bool" where
  "le_zero rt v = num_le_zero (to_number rt v)"

section \<open>The adapter\<close>

definition BANNER :: string where "BANNER = ''banner''"
definition VIDEO :: string where "VIDEO = ''video''"
definition DEFAULT_CURRENCY :: string where "DEFAULT_CURRENCY = ''USD''"
definition DEFAULT_TTL :: nat where "DEFAULT_TTL = 60"
definition ENDPOINT_URL :: string where
  "ENDPOINT_URL = ''https://ads.adsmartx.com/ads/rtb/prebid/js''"

subsection \<open>isBidRequestValid (lines 120 to 144)\<close>

definition isBidRequestValid :: "js_runtime \<Rightarrow> jsval \<Rightarrow> bool completion" where
  "isBidRequestValid rt bid = do {
     mediaTypes \<leftarrow> get bid ''mediaTypes'';
     if truthy (opt_get mediaTypes VIDEO) then do {
       video \<leftarrow> get mediaTypes VIDEO;
       mimes \<leftarrow> get video ''mimes'';
       if \<not> truthy mimes \<or> \<not> isArray mimes then Some False
       else do {
         len \<leftarrow> get mimes ''length'';
         if len = num 0 then Some False
         else do {
           w \<leftarrow> get video ''w'';
           if \<not> nullish w \<and> le_zero rt w then Some False
           else do {
             h \<leftarrow> get video ''h'';
             if \<not> nullish h \<and> le_zero rt h then Some False
             else Some True
           }
         }
       }
     }
     else Some True
   }"

subsection \<open>getPublisherUserId (lines 22 to 38)\<close>

text \<open>
  Modelled from the spec: \<open>deepAccess\<close> of the host's utilities is not among the sources.
  It reads "the context's standardized first-party user identifier" along the path
  \<open>ortb2.user.id\<close>, and the identifier is absent (\<open>undefined\<close>) when a step of the path is.
\<close>

fun deepAccess :: "jsval \<Rightarrow> string list \<Rightarrow> jsval" where
  "deepAccess obj [] = obj"
| "deepAccess obj (k # ks) = deepAccess (if truthy obj then opt_get obj k else JUndefined) ks"

definition getPublisherUserId :: "jsval \<Rightarrow> jsval \<Rightarrow> jsval" where
  "getPublisherUserId bidParams bidderRequest =
     (if truthy (opt_get bidParams ''sspUserId'') then opt_get bidParams ''sspUserId''
      else
        let ortb2UserId = deepAccess bidderRequest [''ortb2'', ''user'', ''id'']
        in if truthy ortb2UserId then ortb2UserId else JNull)"

subsection \<open>The converter's \<open>imp\<close> hook (lines 46 to 68)\<close>

definition nth_or_undefined :: "jsval list \<Rightarrow> nat \<Rightarrow> jsval" where
  "nth_or_undefined xs i = (if i < length xs then xs ! i else JUndefined)"

text \<open>
  The callback \<open>([w, h]) => ({ w, h })\<close>: the parameter is destructured as an iterable, so
  an array gives its first two elements and a string its first two characters; any
  other value is not iterable.
\<close>

fun size_format :: "jsval \<Rightarrow> jsval completion" where
  "size_format (JArr xs) =
     Some (JObj [(''w'', nth_or_undefined xs 0), (''h'', nth_or_undefined xs 1)])"
| "size_format (JStr s) =
     Some (JObj [(''w'', nth_or_undefined (map (\<lambda>c. JStr [c]) s) 0),
                 (''h'', nth_or_undefined (map (\<lambda>c. JStr [c]) s) 1)])"
| "size_format v = None"

text \<open>\<open>sizes.map(...)\<close>: only an array has \<open>map\<close>.\<close>

fun map_sizes :: "jsval \<Rightarrow> jsval list completion" where
  "map_sizes (JArr xs) = those (map size_format xs)"
| "map_sizes v = None"

text \<open>The own enumerable properties that the spread \<open>{...v}\<close> copies.\<close>

fun spread :: "jsval \<Rightarrow> (string \<times> jsval) list" where
  "spread (JObj ps) = ps"
| "spread (JArr xs) = indexed 0 xs"
| "spread (JStr s) = indexed 0 (map (\<lambda>c. JStr [c]) s)"
| "spread v = []"

definition imp ::
  "(jsval \<Rightarrow> jsval \<Rightarrow> jsval completion) \<Rightarrow> jsval \<Rightarrow> jsval \<Rightarrow> jsval completion" where
  "imp buildImp bidRequest context = do {
     imp0 \<leftarrow> buildImp bidRequest context;
     mediaTypes \<leftarrow> get bidRequest ''mediaTypes'';
     params \<leftarrow> get bidRequest ''params'';
     imp1 \<leftarrow> (if truthy params \<and> truthy (opt_get params ''bidfloor'')
              then set_prop imp0 ''bidfloor'' (opt_get params ''bidfloor'')
              else Some imp0);
     banner \<leftarrow> get mediaTypes BANNER;
     if truthy banner then do {
       sizes \<leftarrow> get banner ''sizes'';
       format \<leftarrow> map_sizes sizes;
       set_prop imp1 ''banner'' (JObj [(''format'', JArr format)])
     }
     else do {
       video \<leftarrow> get mediaTypes VIDEO;
       if truthy video then set_prop imp1 ''video'' (JObj (spread video))
       else Some imp1
     }
   }"

subsection \<open>The converter's \<open>request\<close> hook (lines 69 to 112)\<close>

text \<open>\<open>bids.some(cb)\<close> and \<open>bids.find(cb)\<close>: both stop at the first match.\<close>

fun array_some :: "(jsval \<Rightarrow> bool completion) \<Rightarrow> jsval list \<Rightarrow> bool completion" where
  "array_some cb [] = Some False"
| "array_some cb (x # xs) = do { b \<leftarrow> cb x; if b then Some True else array_some cb xs }"

fun array_find :: "(jsval \<Rightarrow> bool completion) \<Rightarrow> jsval list \<Rightarrow> jsval completion" where
  "array_find cb [] = Some JUndefined"
| "array_find cb (x # xs) = do { b \<leftarrow> cb x; if b then Some x else array_find cb xs }"

text \<open>\<open>bid => bid.params && bid.params.testMode === 1\<close>\<close>

definition has_testMode :: "jsval \<Rightarrow> bool completion" where
  "has_testMode bid = do {
     params \<leftarrow> get bid ''params'';
     Some (truthy params \<and> opt_get params ''testMode'' = num 1)
   }"

text \<open>\<open>bid => bid.params && bid.params.sspId\<close>, and the same for \<open>siteId\<close>.\<close>

definition has_param :: "string \<Rightarrow> jsval \<Rightarrow> bool completion" where
  "has_param k bid = do {
     params \<leftarrow> get bid ''params'';
     Some (truthy params \<and> truthy (opt_get params k))
   }"

text \<open>\<open>request.ext = request.ext || {}; request.ext.k = v\<close>\<close>

definition set_ext :: "jsval \<Rightarrow> string \<Rightarrow> jsval \<Rightarrow> jsval completion" where
  "set_ext request k v = do {
     ext \<leftarrow> get request ''ext'';
     ext' \<leftarrow> set_prop (js_or ext (JObj [])) k v;
     set_prop request ''ext'' ext'
   }"

text \<open>Lines 76 to 96, for \<open>bidderRequest.bids\<close> an array with the elements \<open>bids\<close>.\<close>

definition ext_from_bids :: "jsval list \<Rightarrow> jsval \<Rightarrow> jsval completion" where
  "ext_from_bids bids request = do {
     hasTestMode \<leftarrow> array_some has_testMode bids;
     r1 \<leftarrow> (if hasTestMode then set_ext request ''test'' (num 1) else Some request);
     sspIdBid \<leftarrow> array_find (has_param ''sspId'') bids;
     r2 \<leftarrow> (if truthy sspIdBid then do {
              params \<leftarrow> get sspIdBid ''params'';
              sspId \<leftarrow> get params ''sspId'';
              set_ext r1 ''sspId'' sspId
            } else Some r1);
     siteIdBid \<leftarrow> array_find (has_param ''siteId'') bids;
     if truthy siteIdBid then do {
       params \<leftarrow> get siteIdBid ''params'';
       siteId \<leftarrow> get params ''siteId'';
       set_ext r2 ''siteId'' siteId
     } else Some r2
   }"

text \<open>Lines 98 to 102.\<close>

definition gdpr_blocks :: "jsval \<Rightarrow> jsval \<Rightarrow> jsval completion" where
  "gdpr_blocks gdprConsent request = do {
     gdprApplies \<leftarrow> get gdprConsent ''gdprApplies'';
     r1 \<leftarrow> set_prop request ''regs''
             (JObj [(''ext'', JObj [(''gdpr'', if truthy gdprApplies then num 1 else num 0)])]);
     consentString \<leftarrow> get gdprConsent ''consentString'';
     set_prop r1 ''user'' (JObj [(''ext'', JObj [(''consent'', consentString)])])
   }"

text \<open>Lines 104 to 109.\<close>

definition usp_block :: "jsval \<Rightarrow> jsval \<Rightarrow> jsval completion" where
  "usp_block uspConsent request = do {
     regs0 \<leftarrow> get request ''regs'';
     regs \<leftarrow> Some (js_or regs0 (JObj []));
     ext0 \<leftarrow> get regs ''ext'';
     ext \<leftarrow> set_prop (js_or ext0 (JObj [])) ''us_privacy'' uspConsent;
     regs' \<leftarrow> set_prop regs ''ext'' ext;
     set_prop request ''regs'' regs'
   }"

definition request ::
  "(jsval list \<Rightarrow> jsval \<Rightarrow> jsval \<Rightarrow> jsval completion) \<Rightarrow>
   jsval list \<Rightarrow> jsval \<Rightarrow> jsval \<Rightarrow> jsval completion" where
  "request buildRequest imps bidderRequest context = do {
     r0 \<leftarrow> buildRequest imps bidderRequest context;
     r1 \<leftarrow> set_prop r0 ''cur'' (JArr [JStr DEFAULT_CURRENCY]);
     timeout \<leftarrow> get bidderRequest ''timeout'';
     r2 \<leftarrow> set_prop r1 ''tmax'' timeout;
     test \<leftarrow> get bidderRequest ''test'';
     r3 \<leftarrow> set_prop r2 ''test'' (js_or test (num 0));
     bids \<leftarrow> get bidderRequest ''bids'';
     r4 \<leftarrow> (case bids of JArr bs \<Rightarrow> ext_from_bids bs r3 | _ \<Rightarrow> Some r3);
     gdprConsent \<leftarrow> get bidderRequest ''gdprConsent'';
     r5 \<leftarrow> (if truthy gdprConsent then gdpr_blocks gdprConsent r4 else Some r4);
     uspConsent \<leftarrow> get bidderRequest ''uspConsent'';
     if truthy uspConsent then usp_block uspConsent r5 else Some r5
   }"

subsection \<open>The converter\<close>

text \<open>
  The converter library (\<open>ortbConverter\<close>) that runs the two hooks is not among the
  sources. Each hook receives from it the builder that it calls first: \<open>buildImp\<close> gives
  the base impression of a descriptor and \<open>buildRequest\<close> the base request for the
  impressions. What the library puts into them is not the adapter's; the two builders
  are parameters of the embedding, and the theorems about the hooks and about
  \<open>buildRequests\<close> hold for every library.
\<close>

record converter_library =
  lib_buildImp :: "jsval \<Rightarrow> jsval \<Rightarrow> jsval completion"
  lib_buildRequest :: "jsval list \<Rightarrow> jsval \<Rightarrow> jsval \<Rightarrow> jsval completion"

text \<open>The converter's own context (lines 41 to 45).\<close>

definition converter_context :: jsval where
  "converter_context =
     JObj [(''netRevenue'', JBool True), (''ttl'', num DEFAULT_TTL),
           (''currency'', JStr DEFAULT_CURRENCY)]"

text \<open>
  Modelled from the spec: the library's conversion \<open>toORTB\<close>, which the sources only call.
  It builds, by the \<open>imp\<close> hook, the impressions of the descriptors in the order of the
  descriptors, and by the \<open>request\<close> hook the request for them. The anomaly of one
  descriptor degrades to a "partial result": a descriptor on which building the
  impression throws is left out of the list ("one per eligible descriptor,
  order-preserving"). The spec gives no result for a \<open>request\<close> hook that throws: there
  is no partial request to return, and the conversion completes abruptly with the
  hook.
\<close>

definition built_imps :: "converter_library \<Rightarrow> jsval list \<Rightarrow> jsval list" where
  "built_imps lib bidRequests =
     List.map_filter (\<lambda>bidRequest. imp (lib_buildImp lib) bidRequest converter_context)
       bidRequests"

definition toORTB :: "converter_library \<Rightarrow> jsval list \<Rightarrow> jsval \<Rightarrow> jsval completion" where
  "toORTB lib bidRequests bidderRequest =
     request (lib_buildRequest lib) (built_imps lib bidRequests) bidderRequest converter_context"

subsection \<open>buildRequests (lines 152 to 179)\<close>

text \<open>
  The module variable \<open>syncParams\<close> is threaded through: \<open>buildRequests\<close> takes its value
  and returns the new one beside its completion. The variable is assigned before the
  converter runs, so the assignment stands when the converter throws.
\<close>

definition server_request ::
  "converter_library \<Rightarrow> jsval list \<Rightarrow> jsval \<Rightarrow> jsval completion" where
  "server_request lib validBidRequests bidderRequest = do {
     req \<leftarrow> toORTB lib validBidRequests bidderRequest;
     Some (JObj [(''method'', JStr ''POST''), (''url'', JStr ENDPOINT_URL), (''data'', req),
                 (''options'', JObj [(''endpointCompression'', JBool True)])])
   }"

definition buildRequests ::
  "converter_library \<Rightarrow> jsval \<Rightarrow> jsval list \<Rightarrow> jsval \<Rightarrow> jsval \<times> jsval completion" where
  "buildRequests lib syncParams validBidRequests bidderRequest =
     (case validBidRequests of
        [] \<Rightarrow> (syncParams, server_request lib validBidRequests bidderRequest)
      | firstBid # rest \<Rightarrow>
          (case get firstBid ''params'' of
             None \<Rightarrow> (syncParams, None)
           | Some params \<Rightarrow>
               if truthy params then
                 (JObj [(''sspId'', opt_get params ''sspId''),
                        (''siteId'', opt_get params ''siteId''),
                        (''sspUserId'', getPublisherUserId params bidderRequest)],
                  server_request lib validBidRequests bidderRequest)
               else (syncParams, server_request lib validBidRequests bidderRequest)))"

subsection \<open>interpretResponse (lines 187 to 245)\<close>

text \<open>Lines 199 to 239: the bid response built from the first bid of a seat.\<close>

definition bid_response :: "jsval \<Rightarrow> jsval \<Rightarrow> jsval completion" where
  "bid_response bidResp bid = do {
     impid \<leftarrow> get bid ''impid'';
     price \<leftarrow> get bid ''price'';
     cur \<leftarrow> get bidResp ''cur'';
     w \<leftarrow> get bid ''w'';
     h \<leftarrow> get bid ''h'';
     adm \<leftarrow> get bid ''adm'';
     crid \<leftarrow> get bid ''crid'';
     adomain \<leftarrow> get bid ''adomain'';
     r0 \<leftarrow> Some (JObj [(''requestId'', impid), (''cpm'', price),
                       (''currency'', js_or cur (JStr DEFAULT_CURRENCY)),
                       (''width'', w), (''height'', h), (''ad'', adm), (''creativeId'', crid),
                       (''netRevenue'', JBool True), (''ttl'', num DEFAULT_TTL),
                       (''meta'', JObj [(''advertiserDomains'', js_or adomain (JArr []))])]);
     mtype \<leftarrow> get bid ''mtype'';
     r1 \<leftarrow> (if nullish mtype then set_prop r0 ''mediaType'' (JStr BANNER) else Some r0);
     r2 \<leftarrow> (if mtype = num 1 then set_prop r1 ''mediaType'' (JStr BANNER)
            else if mtype = num 2 then do {
              r \<leftarrow> set_prop r1 ''mediaType'' (JStr VIDEO);
              set_prop r ''vastXml'' adm
            }
            else Some r1);
     dealid \<leftarrow> get bid ''dealid'';
     if truthy dealid then set_prop r2 ''dealId'' dealid else Some r2
   }"

text \<open>The body of the \<open>forEach\<close> callback: what one seat pushes onto \<open>responses\<close>.\<close>

definition seat_responses :: "jsval \<Rightarrow> jsval \<Rightarrow> jsval list completion" where
  "seat_responses bidResp seatbid = do {
     bids \<leftarrow> get seatbid ''bid'';
     case bids of
       JArr (bid # others) \<Rightarrow> do { r \<leftarrow> bid_response bidResp bid; Some [r] }
     | _ \<Rightarrow> Some []
   }"

fun for_each_seat :: "jsval \<Rightarrow> jsval list \<Rightarrow> jsval list completion" where
  "for_each_seat bidResp [] = Some []"
| "for_each_seat bidResp (seatbid # seatbids) = do {
     rs \<leftarrow> seat_responses bidResp seatbid;
     rest \<leftarrow> for_each_seat bidResp seatbids;
     Some (rs @ rest)
   }"

definition interpretResponse :: "jsval \<Rightarrow> jsval \<Rightarrow> jsval list completion" where
  "interpretResponse serverResponse req = do {
     bidResp \<leftarrow> (if truthy serverResponse then get serverResponse ''body''
                 else Some serverResponse);
     if \<not> truthy bidResp then Some []
     else do {
       seatbid \<leftarrow> get bidResp ''seatbid'';
       case seatbid of
         JArr seatbids \<Rightarrow> for_each_seat bidResp seatbids
       | _ \<Rightarrow> Some []
     }
   }"

subsection \<open>getUserSyncs (lines 256 to 314)\<close>

definition uri_unreserved :: "char \<Rightarrow> bool" where
  "uri_unreserved c \<longleftrightarrow>
     c \<in> set (''ABCDEFGHIJKLMNOPQRSTUVWXYZabcdefghijklmnopqrstuvwxyz0123456789-_.!~*()'' @
             [CHR 0x27])"

definition percent_encode :: "char \<Rightarrow> string" where
  "percent_encode c =
     [CHR ''%'', ''0123456789ABCDEF'' ! (of_char c div 16),
      ''0123456789ABCDEF'' ! (of_char c mod 16)]"

text \<open>
  \<open>encodeURIComponent(v)\<close>: the argument is converted to a string, and every byte of its
  UTF-8 form other than an unreserved character is written as a percent escape.
\<close>

definition encodeURIComponent :: "js_runtime \<Rightarrow> jsval \<Rightarrow> string" where
  "encodeURIComponent rt v =
     concat (map (\<lambda>c. if uri_unreserved c then [c] else percent_encode c) (to_string rt v))"

definition SYNC_URL :: string where
  "SYNC_URL = ''https://ads.adsmartx.com/sync''"

text \<open>Lines 271 to 283: the privacy parameters, in the order they are pushed.\<close>

definition privacy_params ::
  "js_runtime \<Rightarrow> jsval \<Rightarrow> jsval \<Rightarrow> jsval \<Rightarrow> string list completion" where
  "privacy_params rt gdprConsent uspConsent gppConsent = do {
     p1 \<leftarrow> (if truthy gdprConsent then do {
              gdprApplies \<leftarrow> get gdprConsent ''gdprApplies'';
              consentString \<leftarrow> get gdprConsent ''consentString'';
              Some [''gdpr='' @ (if truthy gdprApplies then ''1'' else ''0''),
                    ''gdpr_consent='' @ encodeURIComponent rt (js_or consentString (JStr []))]
            } else Some []);
     p2 \<leftarrow> Some (if truthy uspConsent then [''us_privacy='' @ encodeURIComponent rt uspConsent]
                else []);
     p3 \<leftarrow> (if truthy (opt_get gppConsent ''gppString'') \<and>
                truthy (opt_get (opt_get gppConsent ''applicableSections'') ''length'')
            then (case opt_get gppConsent ''applicableSections'' of
                    JArr sections \<Rightarrow>
                      Some [''gpp='' @ encodeURIComponent rt (opt_get gppConsent ''gppString''),
                            ''gpp_sid='' @
                              encodeURIComponent rt (JStr (array_join rt sections '','')) ]
                  | _ \<Rightarrow> None)
            else Some []);
     Some (p1 @ p2 @ p3)
   }"

text \<open>Lines 286 to 299: the parameters read from the module variable \<open>syncParams\<close>.\<close>

definition custom_params :: "js_runtime \<Rightarrow> jsval \<Rightarrow> string list completion" where
  "custom_params rt syncParams = do {
     sspId \<leftarrow> get syncParams ''sspId'';
     siteId \<leftarrow> get syncParams ''siteId'';
     sspUserId \<leftarrow> get syncParams ''sspUserId'';
     Some ((if truthy sspId then [''ssp_id='' @ encodeURIComponent rt sspId] else []) @
           (if truthy siteId then [''ssp_site_id='' @ encodeURIComponent rt siteId] else []) @
           (if truthy sspUserId then [''ssp_user_id='' @ encodeURIComponent rt sspUserId]
            else []))
   }"

definition getUserSyncs ::
  "js_runtime \<Rightarrow> jsval \<Rightarrow> jsval \<Rightarrow> jsval \<Rightarrow> jsval \<Rightarrow> jsval \<Rightarrow> jsval \<Rightarrow> jsval list completion" where
  "getUserSyncs rt syncParams syncOptions serverResponses gdprConsent uspConsent gppConsent = do {
     iframeEnabled \<leftarrow> get syncOptions ''iframeEnabled'';
     pixelEnabled \<leftarrow> get syncOptions ''pixelEnabled'';
     if \<not> truthy iframeEnabled \<and> \<not> truthy pixelEnabled then Some []
     else do {
       syncType \<leftarrow> Some (if truthy iframeEnabled then ''iframe'' else ''image'');
       privacy \<leftarrow> privacy_params rt gdprConsent uspConsent gppConsent;
       custom \<leftarrow> custom_params rt syncParams;
       params \<leftarrow> Some (privacy @ custom @
                        [''iframe_enabled='' @ (if truthy iframeEnabled then ''true'' else ''false'')]);
       queryString \<leftarrow> Some (if params \<noteq> [] then ''?'' @ join_with ''&'' params else []);
       Some [JObj [(''type'', JStr syncType), (''url'', JStr (SYNC_URL @ queryString))]]
     }
   }"

text \<open>The value of \<open>syncParams\<close> when the module is loaded (line 12).\<close>

definition initial_syncParams :: jsval where
  "initial_syncParams = JObj []"

section \<open>Notions of the specification\<close>

text \<open>
  The format spec that a descriptor declares for a media type: the value of
  \<open>mediaTypes.banner\<close> or \<open>mediaTypes.video\<close>, and \<open>undefined\<close> when the descriptor declares
  none (or has no \<open>mediaTypes\<close> at all). A declared spec is an object, hence truthy.
\<close>

definition media_spec :: "jsval \<Rightarrow> string \<Rightarrow> jsval" where
  "media_spec bid k = opt_get (opt_get bid ''mediaTypes'') k"

text \<open>The \<open>mimes\<close> field is missing, not a list, or an empty list.\<close>

definition mimes_unusable :: "jsval \<Rightarrow> bool" where
  "mimes_unusable m = (case m of JArr (x # xs) \<Rightarrow> False | _ \<Rightarrow> True)"

text \<open>A width or height that is present, not null, and at most zero.\<close>

definition dimension_rejected :: "js_runtime \<Rightarrow> jsval \<Rightarrow> bool" where
  "dimension_rejected rt d \<longleftrightarrow> d \<noteq> JUndefined \<and> d \<noteq> JNull \<and> le_zero rt d"

text \<open>
  The descriptors on which the steps of the \<open>imp\<close> hook itself complete normally: a value
  other than \<open>undefined\<close> and \<open>null\<close>, with \<open>mediaTypes\<close> likewise, whose banner spec, when it
  has one, lists its sizes as an array of pairs (arrays; a string is iterable too).
\<close>

fun iterable :: "jsval \<Rightarrow> bool" where
  "iterable (JArr xs) = True"
| "iterable (JStr s) = True"
| "iterable v = False"

fun sizes_ok :: "jsval \<Rightarrow> bool" where
  "sizes_ok (JArr xs) = list_all iterable xs"
| "sizes_ok v = False"

definition descriptor_ok :: "jsval \<Rightarrow> bool" where
  "descriptor_ok d \<longleftrightarrow>
     \<not> nullish d \<and> \<not> nullish (opt_get d ''mediaTypes'') \<and>
     (truthy (media_spec d ''banner'') \<longrightarrow>
        sizes_ok (opt_get (media_spec d ''banner'') ''sizes''))"

text \<open>
  The auction contexts on which the steps of the \<open>request\<close> hook itself complete normally:
  a value other than \<open>undefined\<close> and \<open>null\<close> whose \<open>bids\<close>, when an array, has no such
  entry either.
\<close>

definition context_ok :: "jsval \<Rightarrow> bool" where
  "context_ok c \<longleftrightarrow>
     \<not> nullish c \<and>
     (case opt_get c ''bids'' of JArr bs \<Rightarrow> list_all (\<lambda>b. \<not> nullish b) bs | _ \<Rightarrow> True)"

text \<open>
  A base request as the protocol has it: an object whose extension block, regulatory
  block and the extension block of that are objects where they are present.
\<close>

fun is_object :: "jsval \<Rightarrow> bool" where
  "is_object (JObj ps) = True"
| "is_object v = False"

definition object_or_absent :: "jsval \<Rightarrow> bool" where
  "object_or_absent v \<longleftrightarrow> is_object v \<or> \<not> truthy v"

definition base_request_ok :: "jsval \<Rightarrow> bool" where
  "base_request_ok r \<longleftrightarrow>
     is_object r \<and> object_or_absent (opt_get r ''ext'') \<and>
     object_or_absent (opt_get r ''regs'') \<and>
     object_or_absent (opt_get (opt_get r ''regs'') ''ext'')"

text \<open>The own properties of an object; none for any other value.\<close>

fun props :: "jsval \<Rightarrow> (string \<times> jsval) list" where
  "props (JObj ps) = ps"
| "props v = []"

text \<open>A partner parameter of a descriptor: the value of \<open>params.k\<close>, \<open>undefined\<close> when absent.\<close>

definition partner_param :: "jsval \<Rightarrow> string \<Rightarrow> jsval" where
  "partner_param bid k = opt_get (opt_get bid ''params'') k"

text \<open>The auction context's bids list; empty when the context has no \<open>bids\<close> array.\<close>

definition context_bids :: "jsval \<Rightarrow> jsval list" where
  "context_bids c = (case opt_get c ''bids'' of JArr bs \<Rightarrow> bs | _ \<Rightarrow> [])"

text \<open>The first entry of a list, in list order, that carries a truthy partner parameter.\<close>

definition first_with :: "string \<Rightarrow> jsval list \<Rightarrow> jsval option" where
  "first_with k bs = find (\<lambda>b. truthy (partner_param b k)) bs"

text \<open>The extension fields that the three scans of a bids list give.\<close>

definition expected_ext :: "jsval list \<Rightarrow> (string \<times> jsval) list" where
  "expected_ext bs =
     (if list_ex (\<lambda>b. partner_param b ''testMode'' = num 1) bs then [(''test'', num 1)] else []) @
     (case first_with ''sspId'' bs of
        Some b \<Rightarrow> [(''sspId'', partner_param b ''sspId'')] | None \<Rightarrow> []) @
     (case first_with ''siteId'' bs of
        Some b \<Rightarrow> [(''siteId'', partner_param b ''siteId'')] | None \<Rightarrow> [])"

text \<open>
  The extension block of the request after the scans of the bids list \<open>bs\<close>, from the
  extension block \<open>e\<close> of the base request: \<open>e\<close> itself when no scan matches, and otherwise
  the properties of \<open>e\<close> with the matched fields written over them.
\<close>

definition merged_ext :: "jsval \<Rightarrow> jsval list \<Rightarrow> jsval" where
  "merged_ext e bs =
     (if expected_ext bs = [] then e
      else JObj (foldl (\<lambda>ps kv. AList.update (fst kv) (snd kv) ps) (props e) (expected_ext bs)))"

text \<open>
  The properties of the request after the \<open>request\<close> hook, from the properties \<open>ps\<close> of the
  base request and the context \<open>c\<close>.
\<close>

definition hooked_request :: "(string \<times> jsval) list \<Rightarrow> jsval \<Rightarrow> (string \<times> jsval) list" where
  "hooked_request ps c =
     (let p3 = AList.update ''test'' (js_or (opt_get c ''test'') (num 0))
                 (AList.update ''tmax'' (opt_get c ''timeout'')
                    (AList.update ''cur'' (JArr [JStr ''USD'']) ps));
          p4 = (if expected_ext (context_bids c) = [] then p3
                else AList.update ''ext'' (merged_ext (lookup ps ''ext'') (context_bids c)) p3);
          g = opt_get c ''gdprConsent'';
          p5 = (if truthy g then
                  AList.update ''user''
                    (JObj [(''ext'', JObj [(''consent'', opt_get g ''consentString'')])])
                    (AList.update ''regs''
                       (JObj [(''ext'',
                               JObj [(''gdpr'',
                                      if truthy (opt_get g ''gdprApplies'') then num 1
                                      else num 0)])])
                       p4)
                else p4);
          u = opt_get c ''uspConsent'';
          regs = lookup p5 ''regs''
      in if truthy u then
           AList.update ''regs''
             (JObj (AList.update ''ext''
                      (JObj (AList.update ''us_privacy'' u (props (opt_get regs ''ext''))))
                      (props regs)))
             p5
         else p5)"

text \<open>
  The request that \<open>buildRequests\<close> hands to the host for sending (its \<open>data\<close>);
  \<open>undefined\<close> when it throws.
\<close>

definition request_data :: "converter_library \<Rightarrow> jsval \<Rightarrow> jsval list \<Rightarrow> jsval \<Rightarrow> jsval" where
  "request_data lib sp ds c =
     (case snd (buildRequests lib sp ds c) of
        Some req \<Rightarrow> opt_get req ''data'' | None \<Rightarrow> JUndefined)"

text \<open>
  Modelled from the spec: the adapter hands the request to the host as an object, and
  the host, whose code is not among the sources, writes it to the wire in the format
  of section 6. That format is JSON text, written by the language's \<open>JSON.stringify\<close>;
  JSON has no \<open>undefined\<close>, and a property whose value is \<open>undefined\<close> is left out of the
  text. These are the properties of an object that are written.
\<close>

fun json_members :: "jsval \<Rightarrow> (string \<times> jsval) list" where
  "json_members (JObj ps) = filter (\<lambda>(k, v). v \<noteq> JUndefined) ps"
| "json_members v = []"

text \<open>
  The seat groups of a response: the value of \<open>body.seatbid\<close>, \<open>undefined\<close> when the
  response or its body is absent.
\<close>

definition seat_groups :: "jsval \<Rightarrow> jsval" where
  "seat_groups resp = opt_get (opt_get resp ''body'') ''seatbid''"

text \<open>A seat group qualifies when its \<open>bid\<close> field is a non-empty list.\<close>

definition qualifying :: "jsval \<Rightarrow> bool" where
  "qualifying sb = (case opt_get sb ''bid'' of JArr (b # others) \<Rightarrow> True | _ \<Rightarrow> False)"

text \<open>The first bid record of a seat group.\<close>

definition first_bid :: "jsval \<Rightarrow> jsval" where
  "first_bid sb = (case opt_get sb ''bid'' of JArr (b # others) \<Rightarrow> b | _ \<Rightarrow> JUndefined)"

text \<open>
  A seat group of the data model is an object and so is a bid record: neither a seat
  group nor the first record of a qualifying group is \<open>undefined\<close> or \<open>null\<close>.
\<close>

definition seat_well_formed :: "jsval \<Rightarrow> bool" where
  "seat_well_formed sb \<longleftrightarrow> \<not> nullish sb \<and> (qualifying sb \<longrightarrow> \<not> nullish (first_bid sb))"

text \<open>The NormalizedBid of a raw bid record, for the response body it came in.\<close>

definition normalized_bid :: "jsval \<Rightarrow> jsval \<Rightarrow> jsval" where
  "normalized_bid body bid =
     JObj ([(''requestId'', opt_get bid ''impid''), (''cpm'', opt_get bid ''price''),
            (''currency'', js_or (opt_get body ''cur'') (JStr ''USD'')),
            (''width'', opt_get bid ''w''), (''height'', opt_get bid ''h''),
            (''ad'', opt_get bid ''adm''), (''creativeId'', opt_get bid ''crid''),
            (''netRevenue'', JBool True), (''ttl'', num 60),
            (''meta'', JObj [(''advertiserDomains'', js_or (opt_get bid ''adomain'') (JArr []))])] @
           (if nullish (opt_get bid ''mtype'') \<or> opt_get bid ''mtype'' = num 1
            then [(''mediaType'', JStr ''banner'')]
            else if opt_get bid ''mtype'' = num 2
            then [(''mediaType'', JStr ''video''), (''vastXml'', opt_get bid ''adm'')]
            else []) @
           (if truthy (opt_get bid ''dealid'') then [(''dealId'', opt_get bid ''dealid'')]
            else []))"

text \<open>User syncing is enabled: \<open>iframeEnabled\<close> or \<open>pixelEnabled\<close> is truthy.\<close>

definition sync_enabled :: "jsval \<Rightarrow> bool" where
  "sync_enabled opts \<longleftrightarrow>
     truthy (opt_get opts ''iframeEnabled'') \<or> truthy (opt_get opts ''pixelEnabled'')"

text \<open>
  The applicable sections of a GPP consent object are a list, as the data model has
  them; \<open>getUserSyncs\<close> calls \<open>join\<close> on them when they have a truthy \<open>length\<close>.
\<close>

definition gpp_sections_listed :: "jsval \<Rightarrow> bool" where
  "gpp_sections_listed gpp \<longleftrightarrow>
     (truthy (opt_get gpp ''gppString'') \<and>
      truthy (opt_get (opt_get gpp ''applicableSections'') ''length'') \<longrightarrow>
        isArray (opt_get gpp ''applicableSections''))"

text \<open>The user identifier stored for the first descriptor \<open>d\<close> under the context \<open>c\<close>.\<close>

definition resolved_user_id :: "jsval \<Rightarrow> jsval \<Rightarrow> jsval" where
  "resolved_user_id d c =
     (if truthy (partner_param d ''sspUserId'') then partner_param d ''sspUserId''
      else if truthy (deepAccess c [''ortb2'', ''user'', ''id''])
           then deepAccess c [''ortb2'', ''user'', ''id'']
      else JNull)"

section \<open>Example data\<close>

text \<open>A runtime for evaluating examples that convert no number.\<close>

definition runtime0 :: js_runtime where
  "runtime0 = \<lparr>StringToNumber = (\<lambda>s. NaN), NumberToString = (\<lambda>n. [])\<rparr>"

text \<open>
  A library for the examples. Like the converter library, its base impression carries
  \<open>id\<close>, \<open>secure\<close>, and a banner and a video block for the format specs that the descriptor
  declares (the contents of the two blocks stand for the library's), and its base request
  carries the impressions, an \<open>id\<close> (that of the first-party data, and otherwise a fixed one
  that stands for the one the library generates) and the first-party data of the
  context (\<open>ortb2\<close>).
\<close>

definition example_buildImp :: "jsval \<Rightarrow> jsval \<Rightarrow> jsval completion" where
  "example_buildImp bidRequest context = do {
     bidId \<leftarrow> get bidRequest ''bidId'';
     Some (JObj ([(''id'', bidId), (''secure'', num 1)] @
                 (if truthy (media_spec bidRequest ''banner'')
                  then [(''banner'', JObj [(''topframe'', num 1)])] else []) @
                 (if truthy (media_spec bidRequest ''video'')
                  then [(''video'', JObj (spread (media_spec bidRequest ''video'')))] else []))
          )
   }"

definition example_buildRequest :: "jsval list \<Rightarrow> jsval \<Rightarrow> jsval \<Rightarrow> jsval completion" where
  "example_buildRequest imps bidderRequest context =
     Some (JObj ((''imp'', JArr imps) #
                 (''id'', js_or (opt_get (opt_get bidderRequest ''ortb2'') ''id'')
                            (JStr ''generated-id'')) #
                 filter (\<lambda>(k, v). k \<noteq> ''imp'' \<and> k \<noteq> ''id'')
                   (spread (opt_get bidderRequest ''ortb2''))))"

definition example_library :: converter_library where
  "example_library =
     \<lparr>lib_buildImp = example_buildImp, lib_buildRequest = example_buildRequest\<rparr>"

definition video_bid_null_width :: jsval where
  "video_bid_null_width =
     JObj [(''bidId'', JStr ''1abc''),
           (''mediaTypes'',
            JObj [(''video'', JObj [(''mimes'', JArr [JStr ''video/mp4'']),
                                    (''w'', JNull), (''h'', num 480)])])]"

definition banner_bid :: jsval where
  "banner_bid =
     JObj [(''bidder'', JStr ''adsmartx''),
           (''params'', JObj [(''publisherId'', JStr ''12345''),
                              (''adSlot'', JStr ''/1234567/adunit'')]),
           (''mediaTypes'',
            JObj [(''banner'', JObj [(''sizes'', JArr [JArr [num 300, num 250],
                                                      JArr [num 728, num 90]])])]),
           (''bidId'', JStr ''1abc''), (''auctionId'', JStr ''2def'')]"



definition test_context :: jsval where
  "test_context =
     JObj [(''refererInfo'', JObj [(''page'', JStr ''https://example.com'')]),
           (''timeout'', num 3000),
           (''gdprConsent'', JObj [(''gdprApplies'', JBool True),
                                   (''consentString'', JStr ''consent123'')]),
           (''uspConsent'', JStr ''1YNN'')]"

definition banner_video_bid :: jsval where
  "banner_video_bid =
     JObj [(''bidId'', JStr ''1abc''),
           (''mediaTypes'',
            JObj [(''banner'', JObj [(''sizes'', JArr [JArr [num 300, num 250]])]),
                  (''video'', JObj [(''mimes'', JArr [JStr ''video/mp4'']),
                                    (''w'', num 640), (''h'', num 480)])])]"

definition gdpr_context_without_string :: jsval where
  "gdpr_context_without_string =
     JObj [(''timeout'', num 3000), (''gdprConsent'', JObj [(''gdprApplies'', JBool True)])]"

definition partner_bid :: jsval where
  "partner_bid =
     JObj [(''bidId'', JStr ''1abc''),
           (''params'', JObj [(''testMode'', num 1), (''sspId'', JStr ''ssp123''),
                              (''siteId'', JStr ''site456'')]),
           (''mediaTypes'', JObj [(''banner'', JObj [(''sizes'', JArr [JArr [num 300, num 250]])])])]"

definition context_with_bids :: jsval where
  "context_with_bids =
     JObj [(''timeout'', num 3000), (''bids'', JArr [banner_bid, partner_bid])]"

definition banner_record :: jsval where
  "banner_record =
     JObj [(''id'', JStr ''1abc''), (''impid'', JStr ''1abc''), (''price'', JNum (Fin (3 / 2))),
           (''adm'', JStr ''<div>Ad1</div>''), (''w'', num 300), (''h'', num 250),
           (''crid'', JStr ''creative123''), (''adomain'', JArr [JStr ''example.com'']),
           (''mtype'', num 1)]"

definition video_record :: jsval where
  "video_record =
     JObj [(''id'', JStr ''2bcd''), (''impid'', JStr ''2bcd''), (''price'', JNum (Fin 2)),
           (''adm'', JStr ''<VAST/>''), (''w'', num 728), (''h'', num 90),
           (''crid'', JStr ''creative456''), (''adomain'', JArr [JStr ''another.com'']),
           (''mtype'', num 2)]"

definition unknown_record :: jsval where
  "unknown_record =
     JObj [(''id'', JStr ''3cde''), (''impid'', JStr ''3cde''), (''price'', JNum (Fin 1)),
           (''mtype'', num 999)]"

definition untyped_record :: jsval where
  "untyped_record = JObj [(''id'', JStr ''4def''), (''impid'', JStr ''4def'')]"

definition seats_response :: jsval where
  "seats_response =
     JObj [(''body'',
            JObj [(''id'', JStr ''2def''),
                  (''seatbid'',
                   JArr [JObj [(''bid'', JArr [])],
                         JObj [(''bid'', JArr [banner_record, unknown_record])],
                         JObj [(''bid'', JStr ''invalid'')],
                         JObj [(''seat'', JStr ''s'')],
                         JObj [(''bid'', JArr [video_record])]])])]"

definition media_response :: jsval where
  "media_response =
     JObj [(''body'',
            JObj [(''seatbid'',
                   JArr [JObj [(''bid'', JArr [banner_record])],
                         JObj [(''bid'', JArr [video_record])],
                         JObj [(''bid'', JArr [untyped_record])],
                         JObj [(''bid'', JArr [unknown_record])]])])]"

definition bid_user_A :: jsval where
  "bid_user_A =
     JObj [(''bidId'', JStr ''1abc''), (''params'', JObj [(''sspUserId'', JStr ''A'')]),
           (''mediaTypes'', JObj [(''banner'', JObj [(''sizes'', JArr [JArr [num 300, num 250]])])])]"

definition context_user_B :: jsval where
  "context_user_B =
     JObj [(''timeout'', num 3000),
           (''ortb2'', JObj [(''user'', JObj [(''id'', JStr ''B'')])])]"

definition sync_bid :: jsval where
  "sync_bid =
     JObj [(''bidId'', JStr ''1abc''),
           (''params'', JObj [(''sspId'', JStr ''ssp789''), (''siteId'', JStr ''site012''),
                              (''sspUserId'', JStr ''user345'')]),
           (''mediaTypes'', JObj [(''banner'', JObj [(''sizes'', JArr [JArr [num 300, num 250]])])])]"

definition bid_without_params :: jsval where
  "bid_without_params =
     JObj [(''bidId'', JStr ''2bcd''),
           (''mediaTypes'', JObj [(''banner'', JObj [(''sizes'', JArr [JArr [num 728, num 90]])])])]"

definition iframe_options :: jsval where
  "iframe_options = JObj [(''iframeEnabled'', JBool True)]"


definition context_fpd_ext :: jsval where
  "context_fpd_ext =
     JObj [(''timeout'', num 3000),
           (''ortb2'', JObj [(''ext'', JObj [(''sspId'', JStr ''fpd-ssp'')])])]"

text \<open>The impressions that the example library and the \<open>imp\<close> hook build for two descriptors.\<close>

definition banner_imp :: jsval where
  "banner_imp =
     JObj [(''id'', JStr ''1abc''), (''secure'', num 1),
           (''banner'', JObj [(''format'', JArr [JObj [(''w'', num 300), (''h'', num 250)],
                                                JObj [(''w'', num 728), (''h'', num 90)]])])]"

definition banner_video_imp :: jsval where
  "banner_video_imp =
     JObj [(''id'', JStr ''1abc''), (''secure'', num 1),
           (''banner'', JObj [(''format'', JArr [JObj [(''w'', num 300), (''h'', num 250)]])]),
           (''video'', JObj [(''mimes'', JArr [JStr ''video/mp4'']),
                             (''w'', num 640), (''h'', num 480)])]"

text \<open>Responses whose list of seat groups holds \<open>null\<close>, or a group whose first record is \<open>null\<close>.\<close>

definition response_null_seat :: jsval where
  "response_null_seat = JObj [(''body'', JObj [(''seatbid'', JArr [JNull])])]"

definition response_null_record :: jsval where
  "response_null_record =
     JObj [(''body'', JObj [(''seatbid'', JArr [JObj [(''bid'', JArr [JNull])]])])]"

section \<open>Properties\<close>

subsection \<open>Reading and writing properties\<close>

lemma get_eq_None_iff: "get v k = None \<longleftrightarrow> nullish v"
  by (cases v) simp_all

lemma get_opt_get: "\<not> nullish v \<Longrightarrow> get v k = Some (opt_get v k)"
  by (cases v) (simp_all add: opt_get_def)

lemma truthy_not_nullish: "truthy v \<Longrightarrow> \<not> nullish v"
  by (cases v) simp_all

lemma nullish_iff: "nullish v \<longleftrightarrow> v = JUndefined \<or> v = JNull"
  by (cases v) simp_all

lemma lookup_update [simp]:
  "lookup (AList.update k x ps) k' = (if k' = k then x else lookup ps k')"
  by (simp add: lookup_def update_conv')

lemma keys_update [simp]: "fst ` set (AList.update k x ps) = insert k (fst ` set ps)"
  by (simp add: dom_update)

lemma lookup_absent: "k \<notin> fst ` set ps \<Longrightarrow> lookup ps k = JUndefined"
  by (cases "map_of ps k") (auto simp add: lookup_def dest!: map_of_SomeD intro: rev_image_eqI)

lemma lookup_Nil [simp]: "lookup [] k = JUndefined"
  by (simp add: lookup_def)

lemma lookup_Cons [simp]: "lookup ((k, v) # ps) k' = (if k' = k then v else lookup ps k')"
  by (simp add: lookup_def)

lemma lookup_append_absent: "k \<notin> fst ` set ps \<Longrightarrow> lookup (ps @ qs) k = lookup qs k"
  by (induction ps) auto

lemma update_absent: "k \<notin> fst ` set ps \<Longrightarrow> AList.update k v ps = ps @ [(k, v)]"
  by (induction ps) auto

lemma update_last: "k \<notin> fst ` set ps \<Longrightarrow> AList.update k v (ps @ [(k, x)]) = ps @ [(k, v)]"
  by (induction ps) auto

lemma update_append_absent:
  "k \<notin> fst ` set ps \<Longrightarrow> AList.update k v (ps @ qs) = ps @ AList.update k v qs"
  by (induction ps) auto

lemma lookup_last: "k \<notin> fst ` set ps \<Longrightarrow> lookup (ps @ [(k, x)]) k = x"
  by (induction ps) auto

lemma those_map_Some:
  "(\<And>x. x \<in> set xs \<Longrightarrow> f x \<noteq> None) \<Longrightarrow>
   \<exists>ys. those (map f xs) = Some ys \<and> length ys = length xs \<and>
        (\<forall>j<length xs. f (xs ! j) = Some (ys ! j))"
proof (induction xs)
  case Nil
  then show ?case by simp
next
  case (Cons x xs)
  then obtain ys where ys: "those (map f xs) = Some ys" "length ys = length xs"
    "\<forall>j<length xs. f (xs ! j) = Some (ys ! j)" by auto
  from Cons.prems obtain y where y: "f x = Some y" by auto
  have "\<forall>j<length (x # xs). f ((x # xs) ! j) = Some ((y # ys) ! j)"
    using ys(3) y by (auto simp add: nth_Cons split: nat.splits)
  then show ?case using ys y by simp
qed

lemma those_map_None:
  "x \<in> set xs \<Longrightarrow> f x = None \<Longrightarrow> those (map f xs) = None"
  by (induction xs) (auto split: option.splits)

lemma opt_get_JObj [simp]: "opt_get (JObj ps) k = lookup ps k"
  by (simp add: opt_get_def)

lemma opt_get_JUndefined [simp]: "opt_get JUndefined k = JUndefined"
  by (simp add: opt_get_def)

subsection \<open>The \<open>imp\<close> hook\<close>

lemma size_format_iff: "size_format v \<noteq> None \<longleftrightarrow> iterable v"
  by (cases v) simp_all

lemma size_format_None: "\<not> iterable v \<Longrightarrow> size_format v = None"
  using size_format_iff by blast

lemma map_sizes_iff: "map_sizes v \<noteq> None \<longleftrightarrow> sizes_ok v"
proof (cases v)
  case (JArr xs)
  show ?thesis
  proof (cases "list_all iterable xs")
    case True
    then have "\<And>x. x \<in> set xs \<Longrightarrow> size_format x \<noteq> None"
      unfolding size_format_iff by (simp add: list_all_iff)
    from those_map_Some[of xs size_format, OF this] show ?thesis using True JArr by auto
  next
    case False
    then obtain x where "x \<in> set xs" "size_format x = None"
      using size_format_None by (auto simp add: list_all_iff)
    then show ?thesis using False JArr those_map_None[of x xs size_format] by simp
  qed
qed simp_all

lemma imp_hook_keys:
  assumes "b d c = Some (JObj ps0)" and "descriptor_ok d"
  shows "\<exists>ps. imp b d c = Some (JObj ps) \<and>
           (''banner'' \<in> fst ` set ps \<longleftrightarrow>
              truthy (media_spec d ''banner'') \<or> ''banner'' \<in> fst ` set ps0) \<and>
           (''video'' \<in> fst ` set ps \<longleftrightarrow>
              (\<not> truthy (media_spec d ''banner'') \<and> truthy (media_spec d ''video'')) \<or>
              ''video'' \<in> fst ` set ps0) \<and>
           (truthy (media_spec d ''banner'') \<longrightarrow> lookup ps ''video'' = lookup ps0 ''video'') \<and>
           (\<not> truthy (media_spec d ''banner'') \<longrightarrow> lookup ps ''banner'' = lookup ps0 ''banner'')"
proof -
  define mt where "mt = opt_get d ''mediaTypes''"
  have nd: "\<not> nullish d" and nm: "\<not> nullish mt"
    using assms(2) by (simp_all add: descriptor_ok_def mt_def)
  have gd: "\<And>k. get d k = Some (opt_get d k)" using nd by (simp add: get_opt_get)
  have gm: "\<And>k. get mt k = Some (opt_get mt k)" using nm by (simp add: get_opt_get)
  have ms: "\<And>k. media_spec d k = opt_get mt k" by (simp add: media_spec_def mt_def)
  define imp1 where "imp1 =
    (if truthy (opt_get d ''params'') \<and> truthy (opt_get (opt_get d ''params'') ''bidfloor'')
     then AList.update ''bidfloor'' (opt_get (opt_get d ''params'') ''bidfloor'') ps0
     else ps0)"
  have k1: "''banner'' \<in> fst ` set imp1 \<longleftrightarrow> ''banner'' \<in> fst ` set ps0"
    "''video'' \<in> fst ` set imp1 \<longleftrightarrow> ''video'' \<in> fst ` set ps0"
    by (simp_all add: imp1_def)
  have l1: "lookup imp1 ''video'' = lookup ps0 ''video''"
    "lookup imp1 ''banner'' = lookup ps0 ''banner''"
    by (simp_all add: imp1_def)
  show ?thesis
  proof (cases "truthy (opt_get mt ''banner'')")
    case True
    then have "sizes_ok (opt_get (opt_get mt ''banner'') ''sizes'')"
      using assms(2) by (simp add: descriptor_ok_def ms)
    then obtain fmt where fmt: "map_sizes (opt_get (opt_get mt ''banner'') ''sizes'') = Some fmt"
      using map_sizes_iff by blast
    have gb: "get (opt_get mt ''banner'') ''sizes'' = Some (opt_get (opt_get mt ''banner'') ''sizes'')"
      using True by (simp add: get_opt_get truthy_not_nullish)
    have "imp b d c =
        Some (JObj (AList.update ''banner'' (JObj [(''format'', JArr fmt)]) imp1))"
      using True fmt gb assms(1)
      by (simp add: imp_def gd gm mt_def[symmetric] BANNER_def imp1_def)
    then show ?thesis using True k1 l1 by (simp add: ms)
  next
    case False
    show ?thesis
    proof (cases "truthy (opt_get mt ''video'')")
      case v: True
      have "imp b d c =
          Some (JObj (AList.update ''video'' (JObj (spread (opt_get mt ''video''))) imp1))"
        using False v assms(1)
        by (simp add: imp_def gd gm mt_def[symmetric] BANNER_def VIDEO_def imp1_def)
      then show ?thesis using False v k1 l1 by (simp add: ms)
    next
      case v: False
      have "imp b d c = Some (JObj imp1)"
        using False v assms(1)
        by (simp add: imp_def gd gm mt_def[symmetric] BANNER_def VIDEO_def imp1_def)
      then show ?thesis using False v k1 l1 by (simp add: ms)
    qed
  qed
qed

lemma imp_hook_throws:
  assumes "\<not> descriptor_ok d"
  shows "imp b d c = None"
proof (cases "b d c")
  case None
  then show ?thesis by (simp add: imp_def)
next
  case (Some i0)
  show ?thesis
  proof (cases "nullish d")
    case True
    then show ?thesis using Some by (cases d) (simp_all add: imp_def)
  next
    case nd: False
    then have gd: "\<And>k. get d k = Some (opt_get d k)" by (simp add: get_opt_get)
    show ?thesis
    proof (cases "nullish (opt_get d ''mediaTypes'')")
      case True
      then show ?thesis using Some
        by (cases "opt_get d ''mediaTypes''")
          (simp_all add: imp_def gd BANNER_def split: bind_splits)
    next
      case nm: False
      then have gm: "\<And>k. get (opt_get d ''mediaTypes'') k =
          Some (opt_get (opt_get d ''mediaTypes'') k)"
        by (simp add: get_opt_get)
      from assms nd nm have t: "truthy (media_spec d ''banner'')"
        and n: "\<not> sizes_ok (opt_get (media_spec d ''banner'') ''sizes'')"
        by (auto simp add: descriptor_ok_def)
      from n have m: "map_sizes (opt_get (media_spec d ''banner'') ''sizes'') = None"
        using map_sizes_iff by blast
      have gb: "get (media_spec d ''banner'') ''sizes'' =
          Some (opt_get (media_spec d ''banner'') ''sizes'')"
        using t by (simp add: get_opt_get truthy_not_nullish)
      show ?thesis
        using gb m t Some unfolding media_spec_def
        by (simp add: imp_def gd gm BANNER_def split: bind_splits)
    qed
  qed
qed

subsection \<open>The \<open>request\<close> hook\<close>

lemma has_testMode_eq:
  "\<not> nullish b \<Longrightarrow> has_testMode b = Some (partner_param b ''testMode'' = num 1)"
proof -
  assume nb: "\<not> nullish b"
  have "opt_get p ''testMode'' = num 1 \<Longrightarrow> truthy p" for p
    by (cases p) (auto simp add: opt_get_def num_def lookup_def)
  then show ?thesis using nb
    by (auto simp add: has_testMode_def get_opt_get partner_param_def)
qed

lemma has_param_eq:
  "\<not> nullish b \<Longrightarrow> k \<noteq> ''length'' \<Longrightarrow> has_param k b = Some (truthy (partner_param b k))"
proof -
  assume nb: "\<not> nullish b" and k: "k \<noteq> ''length''"
  have "truthy (opt_get p k) \<Longrightarrow> truthy p" for p
    using k by (cases p) (auto simp add: opt_get_def num_def lookup_def)
  then show ?thesis using nb
    by (auto simp add: has_param_def get_opt_get partner_param_def)
qed

lemma array_some_testMode:
  "list_all (\<lambda>b. \<not> nullish b) bs \<Longrightarrow>
   array_some has_testMode bs = Some (list_ex (\<lambda>b. partner_param b ''testMode'' = num 1) bs)"
  by (induction bs) (simp_all add: has_testMode_eq)

lemma array_find_param:
  "list_all (\<lambda>b. \<not> nullish b) bs \<Longrightarrow> k \<noteq> ''length'' \<Longrightarrow>
   array_find (has_param k) bs =
     Some (case first_with k bs of None \<Rightarrow> JUndefined | Some b \<Rightarrow> b)"
  by (induction bs) (simp_all add: has_param_eq first_with_def)

lemma first_with_Some:
  "first_with k bs = Some b \<Longrightarrow> truthy (partner_param b k) \<and> b \<in> set bs"
  by (auto simp add: first_with_def find_Some_iff)

lemma first_with_facts:
  assumes "first_with k bs = Some b"
  shows "truthy b" and "get b ''params'' = Some (opt_get b ''params'')"
    and "get (opt_get b ''params'') k = Some (partner_param b k)"
proof -
  from first_with_Some[OF assms] have tb: "truthy (partner_param b k)" by simp
  then show "truthy b"
    unfolding partner_param_def by (cases b) (auto simp add: opt_get_def lookup_def)
  then show "get b ''params'' = Some (opt_get b ''params'')"
    by (simp add: get_opt_get truthy_not_nullish)
  from tb have "\<not> nullish (opt_get b ''params'')"
    unfolding partner_param_def by (cases "opt_get b ''params''") (simp_all add: opt_get_def)
  then show "get (opt_get b ''params'') k = Some (partner_param b k)"
    by (simp add: get_opt_get partner_param_def)
qed

lemma expected_ext_Nil [simp]: "expected_ext [] = []"
  by (simp add: expected_ext_def first_with_def)

lemma set_ext_eq:
  assumes "object_or_absent (lookup ps ''ext'')"
  shows "set_ext (JObj ps) k v =
           Some (JObj (AList.update ''ext''
                         (JObj (AList.update k v (props (lookup ps ''ext'')))) ps))"
  using assms
  by (cases "lookup ps ''ext''") (auto simp add: set_ext_def js_or_def object_or_absent_def)

lemma ext_from_bids_eq:
  assumes "list_all (\<lambda>b. \<not> nullish b) bs" and "object_or_absent (lookup ps ''ext'')"
  shows "ext_from_bids bs (JObj ps) =
           Some (JObj (if expected_ext bs = [] then ps
                       else AList.update ''ext'' (merged_ext (lookup ps ''ext'') bs) ps))"
proof -
  have t: "array_some has_testMode bs =
      Some (list_ex (\<lambda>b. partner_param b ''testMode'' = num 1) bs)"
    using assms(1) by (rule array_some_testMode)
  have f1: "array_find (has_param ''sspId'') bs =
      Some (case first_with ''sspId'' bs of None \<Rightarrow> JUndefined | Some b \<Rightarrow> b)"
    using assms(1) by (simp add: array_find_param)
  have f2: "array_find (has_param ''siteId'') bs =
      Some (case first_with ''siteId'' bs of None \<Rightarrow> JUndefined | Some b \<Rightarrow> b)"
    using assms(1) by (simp add: array_find_param)
  have o: "object_or_absent (JObj e)" for e by (simp add: object_or_absent_def)
  show ?thesis
    unfolding ext_from_bids_def t f1 f2
    using assms(2)
    by (cases "list_ex (\<lambda>b. partner_param b ''testMode'' = num 1) bs";
        cases "first_with ''sspId'' bs"; cases "first_with ''siteId'' bs")
      (simp_all add: expected_ext_def merged_ext_def set_ext_eq o first_with_facts)
qed

lemma gdpr_blocks_eq:
  assumes "truthy g"
  shows "gdpr_blocks g (JObj ps) =
           Some (JObj (AList.update ''user''
                         (JObj [(''ext'', JObj [(''consent'', opt_get g ''consentString'')])])
                         (AList.update ''regs''
                            (JObj [(''ext'',
                                    JObj [(''gdpr'',
                                           if truthy (opt_get g ''gdprApplies'') then num 1
                                           else num 0)])])
                            ps)))"
  using assms by (simp add: gdpr_blocks_def get_opt_get truthy_not_nullish)

lemma usp_block_eq:
  assumes "object_or_absent (lookup ps ''regs'')"
    and "object_or_absent (opt_get (lookup ps ''regs'') ''ext'')"
  shows "usp_block u (JObj ps) =
           Some (JObj (AList.update ''regs''
                         (JObj (AList.update ''ext''
                                  (JObj (AList.update ''us_privacy'' u
                                           (props (opt_get (lookup ps ''regs'') ''ext''))))
                                  (props (lookup ps ''regs''))))
                         ps))"
proof (cases "is_object (lookup ps ''regs'')")
  case True
  then obtain rs where rs: "lookup ps ''regs'' = JObj rs" by (cases "lookup ps ''regs''") simp_all
  then have e: "object_or_absent (lookup rs ''ext'')" using assms(2) by simp
  show ?thesis using rs e
    by (cases "lookup rs ''ext''") (auto simp add: usp_block_def js_or_def object_or_absent_def)
next
  case False
  then have f: "\<not> truthy (lookup ps ''regs'')" using assms(1) by (simp add: object_or_absent_def)
  then have p: "props (lookup ps ''regs'') = []" using False
    by (cases "lookup ps ''regs''") simp_all
  have "opt_get (lookup ps ''regs'') ''ext'' = JUndefined"
    using f False by (cases "lookup ps ''regs''") (auto simp add: opt_get_def)
  then show ?thesis using f p by (simp add: usp_block_def js_or_def)
qed


lemma request_hook_eq:
  assumes "context_ok c" and "b imps c ctx = Some (JObj ps0)" and "base_request_ok (JObj ps0)"
  shows "request b imps c ctx = Some (JObj (hooked_request ps0 c))"
proof -
  have nc: "\<not> nullish c" using assms(1) by (simp add: context_ok_def)
  then have gc: "\<And>k. get c k = Some (opt_get c k)" by (simp add: get_opt_get)
  define p3 where "p3 = AList.update ''test'' (js_or (opt_get c ''test'') (num 0))
      (AList.update ''tmax'' (opt_get c ''timeout'')
         (AList.update ''cur'' (JArr [JStr ''USD'']) ps0))"
  define p4 where "p4 = (if expected_ext (context_bids c) = [] then p3
      else AList.update ''ext'' (merged_ext (lookup ps0 ''ext'') (context_bids c)) p3)"
  define g where "g = opt_get c ''gdprConsent''"
  define p5 where "p5 = (if truthy g then
      AList.update ''user'' (JObj [(''ext'', JObj [(''consent'', opt_get g ''consentString'')])])
        (AList.update ''regs''
           (JObj [(''ext'', JObj [(''gdpr'', if truthy (opt_get g ''gdprApplies'') then num 1
                                            else num 0)])]) p4)
      else p4)"
  have b_ext: "object_or_absent (lookup ps0 ''ext'')"
    and b_regs: "object_or_absent (lookup ps0 ''regs'')"
    "object_or_absent (opt_get (lookup ps0 ''regs'') ''ext'')"
    using assms(3) by (simp_all add: base_request_ok_def)
  have l3: "lookup p3 ''ext'' = lookup ps0 ''ext''" by (simp add: p3_def)
  have r4: "(case opt_get c ''bids'' of JArr bs \<Rightarrow> ext_from_bids bs (JObj p3)
             | _ \<Rightarrow> Some (JObj p3)) = Some (JObj p4)"
  proof (cases "opt_get c ''bids''")
    case (JArr bs)
    then have "list_all (\<lambda>b. \<not> nullish b) bs" using assms(1) by (simp add: context_ok_def)
    then show ?thesis using JArr b_ext
      by (simp add: ext_from_bids_eq l3 p4_def context_bids_def)
  qed (simp_all add: p4_def context_bids_def)
  have r5: "(if truthy g then gdpr_blocks g (JObj p4) else Some (JObj p4)) = Some (JObj p5)"
    by (simp add: gdpr_blocks_eq p5_def)
  have l4: "lookup p4 ''regs'' = lookup ps0 ''regs''" by (simp add: p4_def p3_def)
  have o5: "object_or_absent (lookup p5 ''regs'')"
    "object_or_absent (opt_get (lookup p5 ''regs'') ''ext'')"
    using b_regs by (simp_all add: p5_def l4 object_or_absent_def)
  have r6: "usp_block (opt_get c ''uspConsent'') (JObj p5) =
      Some (JObj (AList.update ''regs''
         (JObj (AList.update ''ext''
            (JObj (AList.update ''us_privacy'' (opt_get c ''uspConsent'')
               (props (opt_get (lookup p5 ''regs'') ''ext''))))
            (props (lookup p5 ''regs'')))) p5))"
    using o5 by (rule usp_block_eq)
  have h: "hooked_request ps0 c =
      (if truthy (opt_get c ''uspConsent'') then
         AList.update ''regs''
           (JObj (AList.update ''ext''
              (JObj (AList.update ''us_privacy'' (opt_get c ''uspConsent'')
                 (props (opt_get (lookup p5 ''regs'') ''ext''))))
              (props (lookup p5 ''regs'')))) p5
       else p5)"
    by (simp add: hooked_request_def Let_def p5_def p4_def p3_def g_def)
  have "request b imps c ctx =
      (case opt_get c ''bids'' of JArr bs \<Rightarrow> ext_from_bids bs (JObj p3)
       | _ \<Rightarrow> Some (JObj p3)) \<bind>
      (\<lambda>r4. (if truthy g then gdpr_blocks g r4 else Some r4) \<bind>
      (\<lambda>r5. if truthy (opt_get c ''uspConsent'')
             then usp_block (opt_get c ''uspConsent'') r5 else Some r5))"
    unfolding request_def p3_def DEFAULT_CURRENCY_def g_def
    using assms(2) by (simp add: gc)
  then show ?thesis
    unfolding r4 h using r5 r6 by simp
qed

lemma hooked_basic:
  "lookup (hooked_request ps c) ''cur'' = JArr [JStr ''USD'']"
  "lookup (hooked_request ps c) ''tmax'' = opt_get c ''timeout''"
  "lookup (hooked_request ps c) ''test'' = js_or (opt_get c ''test'') (num 0)"
  "lookup (hooked_request ps c) ''imp'' = lookup ps ''imp''"
  by (simp_all add: hooked_request_def Let_def)

lemma hooked_ext:
  "lookup (hooked_request ps c) ''ext'' = merged_ext (lookup ps ''ext'') (context_bids c)"
  "''ext'' \<in> fst ` set (hooked_request ps c) \<longleftrightarrow>
     ''ext'' \<in> fst ` set ps \<or> expected_ext (context_bids c) \<noteq> []"
  by (simp_all add: hooked_request_def Let_def merged_ext_def)

lemma hooked_gdpr:
  assumes "truthy (opt_get c ''gdprConsent'')"
  shows "opt_get (opt_get (lookup (hooked_request ps c) ''regs'') ''ext'') ''gdpr'' =
           (if truthy (opt_get (opt_get c ''gdprConsent'') ''gdprApplies'') then num 1 else num 0)"
    and "opt_get (lookup (hooked_request ps c) ''user'') ''ext'' =
           JObj [(''consent'', opt_get (opt_get c ''gdprConsent'') ''consentString'')]"
  using assms by (simp_all add: hooked_request_def Let_def)

lemma props_lookup:
  "object_or_absent e \<Longrightarrow> k \<noteq> ''length'' \<Longrightarrow> lookup (props e) k = opt_get e k"
  by (cases e) (auto simp add: object_or_absent_def opt_get_def)

lemma props_keys: "k \<in> fst ` set (props e) \<longleftrightarrow> has_key e k"
  by (cases e) simp_all

lemma merged_test:
  assumes "object_or_absent e"
  shows "opt_get (merged_ext e bs) ''test'' =
           (if list_ex (\<lambda>b. partner_param b ''testMode'' = num 1) bs then num 1
            else opt_get e ''test'')"
    and "has_key (merged_ext e bs) ''test'' \<longleftrightarrow>
           list_ex (\<lambda>b. partner_param b ''testMode'' = num 1) bs \<or> has_key e ''test''"
  using assms
  by (cases "list_ex (\<lambda>b. partner_param b ''testMode'' = num 1) bs";
      cases "first_with ''sspId'' bs"; cases "first_with ''siteId'' bs";
      simp add: merged_ext_def expected_ext_def props_lookup props_keys; fail)+

lemma merged_sspId:
  assumes "object_or_absent e"
  shows "opt_get (merged_ext e bs) ''sspId'' =
           (case first_with ''sspId'' bs of Some b \<Rightarrow> partner_param b ''sspId''
            | None \<Rightarrow> opt_get e ''sspId'')"
    and "has_key (merged_ext e bs) ''sspId'' \<longleftrightarrow>
           first_with ''sspId'' bs \<noteq> None \<or> has_key e ''sspId''"
  using assms
  by (cases "list_ex (\<lambda>b. partner_param b ''testMode'' = num 1) bs";
      cases "first_with ''sspId'' bs"; cases "first_with ''siteId'' bs";
      simp add: merged_ext_def expected_ext_def props_lookup props_keys; fail)+

lemma merged_siteId:
  assumes "object_or_absent e"
  shows "opt_get (merged_ext e bs) ''siteId'' =
           (case first_with ''siteId'' bs of Some b \<Rightarrow> partner_param b ''siteId''
            | None \<Rightarrow> opt_get e ''siteId'')"
    and "has_key (merged_ext e bs) ''siteId'' \<longleftrightarrow>
           first_with ''siteId'' bs \<noteq> None \<or> has_key e ''siteId''"
  using assms
  by (cases "list_ex (\<lambda>b. partner_param b ''testMode'' = num 1) bs";
      cases "first_with ''sspId'' bs"; cases "first_with ''siteId'' bs";
      simp add: merged_ext_def expected_ext_def props_lookup props_keys; fail)+

subsection \<open>The validator\<close>

lemma dimension_rejected_number: "dimension_rejected rt (JNum (Fin r)) \<longleftrightarrow> r \<le> 0"
  by (simp add: dimension_rejected_def le_zero_def)

lemma dimension_rejected_absent:
  "\<not> dimension_rejected rt JNull" "\<not> dimension_rejected rt JUndefined"
  by (simp_all add: dimension_rejected_def)

text \<open>
  C1. On every descriptor (a value other than \<open>undefined\<close> and \<open>null\<close>) the validator
  returns a boolean, and it returns false exactly when the descriptor declares a video
  spec whose \<open>mimes\<close> is missing, not a list or empty, or whose width is present, not null
  and at most zero, or whose height is. So a null width or height does not reject
  (\<open>dimension_rejected_absent\<close>), a numeric one rejects exactly when it is at most zero
  (\<open>dimension_rejected_number\<close>), and a descriptor that declares no video spec, also one
  without \<open>mediaTypes\<close>, is valid.
\<close>

theorem validate_video_iff:
  "\<not> nullish bid \<Longrightarrow>
   isBidRequestValid rt bid =
     Some (\<not> (truthy (media_spec bid ''video'') \<and>
              (mimes_unusable (opt_get (media_spec bid ''video'') ''mimes'') \<or>
               dimension_rejected rt (opt_get (media_spec bid ''video'') ''w'') \<or>
               dimension_rejected rt (opt_get (media_spec bid ''video'') ''h''))))"
proof -
  assume nb: "\<not> nullish bid"
  define mt where "mt = opt_get bid ''mediaTypes''"
  define v where "v = opt_get mt ''video''"
  have g: "get bid ''mediaTypes'' = Some mt" using nb by (simp add: get_opt_get mt_def)
  have dv: "media_spec bid ''video'' = v" by (simp add: media_spec_def mt_def v_def)
  have ov: "opt_get mt ''video'' = v" by (simp add: v_def)
  show ?thesis
  proof (cases "truthy v")
    case False
    then show ?thesis using g by (simp add: isBidRequestValid_def dv VIDEO_def ov)
  next
    case True
    then have "\<not> nullish mt" unfolding v_def by (cases mt) (simp_all add: opt_get_def)
    then have gv: "get mt ''video'' = Some v" by (simp add: get_opt_get v_def)
    have gm: "\<And>k. get v k = Some (opt_get v k)"
      using True by (simp add: get_opt_get truthy_not_nullish)
    show ?thesis
    proof (cases "mimes_unusable (opt_get v ''mimes'')")
      case mu: True
      then have "\<not> truthy (opt_get v ''mimes'') \<or> \<not> isArray (opt_get v ''mimes'') \<or>
          get (opt_get v ''mimes'') ''length'' = Some (num 0)"
        by (cases "opt_get v ''mimes''")
          (simp_all add: mimes_unusable_def num_def split: list.splits)
      then show ?thesis
        using True g gv gm mu
        by (auto simp add: isBidRequestValid_def dv VIDEO_def ov)
    next
      case mu: False
      then obtain l where l: "get (opt_get v ''mimes'') ''length'' = Some l" "l \<noteq> num 0"
        and t: "truthy (opt_get v ''mimes'')" "isArray (opt_get v ''mimes'')"
        by (cases "opt_get v ''mimes''")
          (simp_all add: mimes_unusable_def num_def split: list.splits)
      show ?thesis
        using True g gv gm mu l t
        by (simp add: isBidRequestValid_def dv VIDEO_def ov dimension_rejected_def nullish_iff)
    qed
  qed
qed

theorem validate_video_iff_witness:
  "\<not> nullish video_bid_null_width \<and>
   isBidRequestValid runtime0 video_bid_null_width = Some True"
  using validate_video_iff [of video_bid_null_width runtime0]
  by (simp add: video_bid_null_width_def media_spec_def opt_get_def lookup_def
      mimes_unusable_def dimension_rejected_def le_zero_def num_def)

subsection \<open>buildRequests\<close>

lemma snd_buildRequests:
  "list_all (\<lambda>d. \<not> nullish d) ds \<Longrightarrow>
   snd (buildRequests lib sp ds c) = server_request lib ds c"
  by (cases ds) (simp_all add: buildRequests_def get_opt_get)

lemma build_eq:
  assumes "list_all (\<lambda>d. \<not> nullish d) ds" and "context_ok c"
    and "lib_buildRequest lib (built_imps lib ds) c converter_context = Some r0"
    and "base_request_ok r0"
  shows "snd (buildRequests lib sp ds c) =
           Some (JObj [(''method'', JStr ''POST''),
                       (''url'', JStr ''https://ads.adsmartx.com/ads/rtb/prebid/js''),
                       (''data'', JObj (hooked_request (props r0) c)),
                       (''options'', JObj [(''endpointCompression'', JBool True)])])"
    and "request_data lib sp ds c = JObj (hooked_request (props r0) c)"
proof -
  from assms(4) obtain ps0 where r0: "r0 = JObj ps0"
    by (cases r0) (simp_all add: base_request_ok_def)
  have "toORTB lib ds c = Some (JObj (hooked_request ps0 c))"
    unfolding toORTB_def using assms(2) assms(3,4)[unfolded r0] by (rule request_hook_eq)
  then have "server_request lib ds c =
      Some (JObj [(''method'', JStr ''POST''),
                  (''url'', JStr ''https://ads.adsmartx.com/ads/rtb/prebid/js''),
                  (''data'', JObj (hooked_request ps0 c)),
                  (''options'', JObj [(''endpointCompression'', JBool True)])])"
    by (simp add: server_request_def ENDPOINT_URL_def)
  then show "snd (buildRequests lib sp ds c) =
           Some (JObj [(''method'', JStr ''POST''),
                       (''url'', JStr ''https://ads.adsmartx.com/ads/rtb/prebid/js''),
                       (''data'', JObj (hooked_request (props r0) c)),
                       (''options'', JObj [(''endpointCompression'', JBool True)])])"
    using snd_buildRequests[OF assms(1)] r0 by simp
  then show "request_data lib sp ds c = JObj (hooked_request (props r0) c)"
    by (simp add: request_data_def)
qed


subsection \<open>The example library\<close>

lemma example_base_request:
  "opt_get c ''ortb2'' = JUndefined \<Longrightarrow>
   lib_buildRequest example_library imps c ctx =
     Some (JObj [(''imp'', JArr imps), (''id'', JStr ''generated-id'')])"
  by (simp add: example_library_def example_buildRequest_def js_or_def)

lemma example_base_request_ok:
  "base_request_ok (JObj [(''imp'', JArr imps), (''id'', JStr ''generated-id'')])"
  by (simp add: base_request_ok_def object_or_absent_def)


lemma example_imp_banner: "built_imps example_library [banner_bid] = [banner_imp]"
  by (simp add: built_imps_def map_filter_simps imp_def example_library_def
      example_buildImp_def banner_bid_def banner_imp_def media_spec_def BANNER_def VIDEO_def
      nth_or_undefined_def)

lemma example_imps_banner_video:
  "built_imps example_library [banner_video_bid] = [banner_video_imp]"
  by (simp add: built_imps_def map_filter_simps imp_def example_library_def example_buildImp_def
      banner_video_bid_def banner_video_imp_def
      media_spec_def BANNER_def VIDEO_def nth_or_undefined_def)

lemma base_props: "base_request_ok r0 \<Longrightarrow> lookup (props r0) k = opt_get r0 k"
  by (cases r0) (simp_all add: base_request_ok_def)

lemma base_keys: "base_request_ok r0 \<Longrightarrow> k \<in> fst ` set (props r0) \<longleftrightarrow> has_key r0 k"
  by (cases r0) (simp_all add: base_request_ok_def)

lemma no_bids_array: "\<not> isArray (opt_get c ''bids'') \<Longrightarrow> context_bids c = []"
  by (cases "opt_get c ''bids''") (simp_all add: context_bids_def)

lemma merged_ext_Nil: "merged_ext e [] = e"
  by (simp add: merged_ext_def)

subsection \<open>The built request\<close>




text \<open>
  C5, as amended. The \<open>imp\<close> hook attaches a banner sub-object when the descriptor declares
  a banner spec and, only when it declares none, a video sub-object for a declared video
  spec. It attaches at most one of the two and removes neither from the base impression
  that the converter library built. So when the descriptor declares both specs, the
  impression has the key \<open>banner\<close>, and it has the key \<open>video\<close> exactly when the base
  impression has it, with the value it has there.
\<close>

theorem hook_adds_banner_or_video:
  assumes "lib_buildImp lib d converter_context = Some i0" and "is_object i0"
    and "descriptor_ok d"
  shows "\<exists>i. imp (lib_buildImp lib) d converter_context = Some i \<and>
           (has_key i ''banner'' \<longleftrightarrow> truthy (media_spec d ''banner'') \<or> has_key i0 ''banner'') \<and>
           (has_key i ''video'' \<longleftrightarrow>
              (\<not> truthy (media_spec d ''banner'') \<and> truthy (media_spec d ''video'')) \<or>
              has_key i0 ''video'') \<and>
           (truthy (media_spec d ''banner'') \<and> truthy (media_spec d ''video'') \<longrightarrow>
              has_key i ''banner'' \<and> (has_key i ''video'' \<longleftrightarrow> has_key i0 ''video'') \<and>
              opt_get i ''video'' = opt_get i0 ''video'')"
proof -
  from assms(2) obtain ps0 where i0: "i0 = JObj ps0" by (cases i0) simp_all
  from imp_hook_keys[of "lib_buildImp lib" d converter_context ps0, OF assms(1)[unfolded i0] assms(3)]
  obtain ps where
    "imp (lib_buildImp lib) d converter_context = Some (JObj ps)"
    "(''banner'' \<in> fst ` set ps) = (truthy (media_spec d ''banner'') \<or> ''banner'' \<in> fst ` set ps0)"
    "(''video'' \<in> fst ` set ps) =
       ((\<not> truthy (media_spec d ''banner'') \<and> truthy (media_spec d ''video'')) \<or>
        ''video'' \<in> fst ` set ps0)"
    "truthy (media_spec d ''banner'') \<longrightarrow> lookup ps ''video'' = lookup ps0 ''video''"
    by blast
  then show ?thesis using i0 by simp
qed

theorem hook_adds_banner_or_video_witness:
  "lib_buildImp example_library banner_video_bid converter_context =
     Some (JObj [(''id'', JStr ''1abc''), (''secure'', num 1),
                 (''banner'', JObj [(''topframe'', num 1)]),
                 (''video'', JObj [(''mimes'', JArr [JStr ''video/mp4'']),
                                   (''w'', num 640), (''h'', num 480)])]) \<and>
   descriptor_ok banner_video_bid \<and>
   truthy (media_spec banner_video_bid ''banner'') \<and>
   truthy (media_spec banner_video_bid ''video'') \<and>
   (\<exists>i. imp (lib_buildImp example_library) banner_video_bid converter_context = Some i \<and>
      has_key i ''banner'' \<and> has_key i ''video'')"
proof -
  let ?i0 = "JObj [(''id'', JStr ''1abc''), (''secure'', num 1),
                 (''banner'', JObj [(''topframe'', num 1)]),
                 (''video'', JObj [(''mimes'', JArr [JStr ''video/mp4'']),
                                   (''w'', num 640), (''h'', num 480)])]"
  have b: "lib_buildImp example_library banner_video_bid converter_context = Some ?i0"
    by (simp add: example_library_def example_buildImp_def banner_video_bid_def media_spec_def)
  have o: "is_object ?i0" by simp
  have d: "descriptor_ok banner_video_bid"
    by (simp add: descriptor_ok_def banner_video_bid_def media_spec_def)
  have t: "truthy (media_spec banner_video_bid ''banner'')"
    "truthy (media_spec banner_video_bid ''video'')"
    by (simp_all add: banner_video_bid_def media_spec_def)
  from hook_adds_banner_or_video [OF b o d] t
  have "\<exists>i. imp (lib_buildImp example_library) banner_video_bid converter_context = Some i \<and>
      has_key i ''banner'' \<and> has_key i ''video''"
    by auto
  then show ?thesis using b d t by blast
qed

text \<open>
  C5, as stated, fails. The descriptor below declares a banner and a video spec; the
  library's base impression carries a block for each, the hook writes the banner block
  and leaves the video block, and the impression sent has both keys.
\<close>

theorem impression_with_banner_and_video:
  "truthy (media_spec banner_video_bid ''banner'') \<and>
   truthy (media_spec banner_video_bid ''video'') \<and>
   built_imps example_library [banner_video_bid] = [banner_video_imp] \<and>
   opt_get (request_data example_library initial_syncParams [banner_video_bid] test_context)
     ''imp'' = JArr [banner_video_imp] \<and>
   has_key banner_video_imp ''banner'' \<and> has_key banner_video_imp ''video''"
proof -
  have t: "truthy (media_spec banner_video_bid ''banner'')"
    "truthy (media_spec banner_video_bid ''video'')"
    by (simp_all add: banner_video_bid_def media_spec_def)
  have p: "list_all (\<lambda>d. \<not> nullish d) [banner_video_bid]"
    by (simp add: banner_video_bid_def)
  have c: "context_ok test_context" by (simp add: context_ok_def test_context_def)
  have b: "lib_buildRequest example_library (built_imps example_library [banner_video_bid])
      test_context converter_context = Some (JObj [(''imp'', JArr [banner_video_imp]),
             (''id'', JStr ''generated-id'')])"
    by (simp add: example_base_request example_imps_banner_video test_context_def)
  have "opt_get (request_data example_library initial_syncParams [banner_video_bid] test_context)
     ''imp'' = JArr [banner_video_imp]"
    by (simp add: build_eq(2)[OF p c b example_base_request_ok] hooked_basic)
  moreover have "has_key banner_video_imp ''banner''" "has_key banner_video_imp ''video''"
    by (simp_all add: banner_video_imp_def)
  ultimately show ?thesis using t example_imps_banner_video by simp
qed

text \<open>
  C6, as amended. When the context carries a GDPR consent object, the request has a
  regulatory block whose \<open>gdpr\<close> is 1 if \<open>gdprApplies\<close> is truthy and 0 otherwise, and a
  user block whose \<open>consent\<close> is the consent string as it is. When the consent string is
  \<open>undefined\<close>, the built object still has the key \<open>consent\<close>, holding \<open>undefined\<close>; no empty
  string is put in its place, and the field is not among those written to the wire.
\<close>

theorem gdpr_regs_and_user:
  assumes "list_all (\<lambda>d. \<not> nullish d) ds" and "context_ok c"
    and "lib_buildRequest lib (built_imps lib ds) c converter_context = Some r0"
    and "base_request_ok r0"
    and "truthy (opt_get c ''gdprConsent'')"
  shows "snd (buildRequests lib sp ds c) \<noteq> None \<and>
         opt_get (opt_get (opt_get (request_data lib sp ds c) ''regs'') ''ext'') ''gdpr'' =
           (if truthy (opt_get (opt_get c ''gdprConsent'') ''gdprApplies'') then num 1 else num 0) \<and>
         has_key (opt_get (opt_get (request_data lib sp ds c) ''user'') ''ext'') ''consent'' \<and>
         opt_get (opt_get (opt_get (request_data lib sp ds c) ''user'') ''ext'') ''consent'' =
           opt_get (opt_get c ''gdprConsent'') ''consentString'' \<and>
         json_members (opt_get (opt_get (request_data lib sp ds c) ''user'') ''ext'') =
           (if opt_get (opt_get c ''gdprConsent'') ''consentString'' = JUndefined then []
            else [(''consent'', opt_get (opt_get c ''gdprConsent'') ''consentString'')])"
proof -
  note b = build_eq[OF assms(1,2,3,4), of sp]
  show ?thesis
    using hooked_gdpr[OF assms(5), of "props r0"] by (simp add: b)
qed

theorem gdpr_regs_and_user_witness:
  "list_all (\<lambda>d. \<not> nullish d) [banner_bid] \<and> context_ok test_context \<and>
   lib_buildRequest example_library (built_imps example_library [banner_bid]) test_context
     converter_context = Some (JObj [(''imp'', JArr [banner_imp]),
             (''id'', JStr ''generated-id'')]) \<and>
   truthy (opt_get test_context ''gdprConsent'') \<and>
   opt_get (opt_get (opt_get
     (request_data example_library initial_syncParams [banner_bid] test_context)
     ''regs'') ''ext'') ''gdpr'' = num 1 \<and>
   opt_get (opt_get (opt_get
     (request_data example_library initial_syncParams [banner_bid] test_context)
     ''user'') ''ext'') ''consent'' = JStr ''consent123''"
proof -
  have d: "list_all (\<lambda>d. \<not> nullish d) [banner_bid]" by (simp add: banner_bid_def)
  have c: "context_ok test_context" by (simp add: context_ok_def test_context_def)
  note i = example_imp_banner
  have b: "lib_buildRequest example_library (built_imps example_library [banner_bid])
      test_context converter_context = Some (JObj [(''imp'', JArr [banner_imp]),
             (''id'', JStr ''generated-id'')])"
    by (simp add: example_base_request i test_context_def)
  have g: "truthy (opt_get test_context ''gdprConsent'')" by (simp add: test_context_def)
  from gdpr_regs_and_user [OF d c b example_base_request_ok g, of initial_syncParams] d c b g
  show ?thesis by (simp add: test_context_def)
qed

text \<open>
  C6, as stated, fails in its last part. With a consent object that has no consent
  string the builder returns a request whose user block is \<open>{ext: {consent: undefined}}\<close>,
  and none of the properties of that \<open>ext\<close> is written to the wire: the field is omitted,
  not sent empty.
\<close>

theorem undefined_consent_not_serialized:
  "snd (buildRequests example_library initial_syncParams [banner_bid]
     gdpr_context_without_string) \<noteq> None \<and>
   opt_get (opt_get
     (request_data example_library initial_syncParams [banner_bid] gdpr_context_without_string)
     ''user'') ''ext'' = JObj [(''consent'', JUndefined)] \<and>
   json_members (opt_get (opt_get
     (request_data example_library initial_syncParams [banner_bid] gdpr_context_without_string)
     ''user'') ''ext'') = []"
proof -
  have d: "list_all (\<lambda>d. \<not> nullish d) [banner_bid]" by (simp add: banner_bid_def)
  have c: "context_ok gdpr_context_without_string"
    by (simp add: context_ok_def gdpr_context_without_string_def)
  have b: "lib_buildRequest example_library (built_imps example_library [banner_bid])
      gdpr_context_without_string converter_context =
      Some (JObj [(''imp'', JArr (built_imps example_library [banner_bid])),
             (''id'', JStr ''generated-id'')])"
    by (simp add: example_base_request gdpr_context_without_string_def)
  have g: "truthy (opt_get gdpr_context_without_string ''gdprConsent'')"
    by (simp add: gdpr_context_without_string_def)
  have e: "opt_get (opt_get gdpr_context_without_string ''gdprConsent'') ''consentString'' =
      JUndefined"
    by (simp add: gdpr_context_without_string_def)
  note r = build_eq[OF d c b example_base_request_ok, of initial_syncParams]
  show ?thesis
    using hooked_gdpr(2)[OF g, of "[(''imp'', JArr (built_imps example_library [banner_bid])),
             (''id'', JStr ''generated-id'')]"]
    by (simp add: r e)
qed

text \<open>
  C7, as stated, fails: the scans do not read the descriptor list. The descriptor
  below carries \<open>testMode\<close> 1, an \<open>sspId\<close> and a \<open>siteId\<close>, the context has no bids list and
  no first-party data, and the request built has no extension block.
\<close>

theorem scans_ignore_descriptor_list:
  "partner_param partner_bid ''testMode'' = num 1 \<and>
   partner_param partner_bid ''sspId'' = JStr ''ssp123'' \<and>
   partner_param partner_bid ''siteId'' = JStr ''site456'' \<and>
   snd (buildRequests example_library initial_syncParams [partner_bid] test_context) \<noteq> None \<and>
   \<not> has_key (request_data example_library initial_syncParams [partner_bid] test_context)
       ''ext''"
proof -
  have d: "list_all (\<lambda>d. \<not> nullish d) [partner_bid]" by (simp add: partner_bid_def)
  have c: "context_ok test_context" by (simp add: context_ok_def test_context_def)
  have b: "lib_buildRequest example_library (built_imps example_library [partner_bid])
      test_context converter_context =
      Some (JObj [(''imp'', JArr (built_imps example_library [partner_bid])),
             (''id'', JStr ''generated-id'')])"
    by (simp add: example_base_request test_context_def)
  have e: "context_bids test_context = []"
    by (simp add: context_bids_def test_context_def)
  have p: "partner_param partner_bid ''testMode'' = num 1"
    "partner_param partner_bid ''sspId'' = JStr ''ssp123''"
    "partner_param partner_bid ''siteId'' = JStr ''site456''"
    by (simp_all add: partner_param_def partner_bid_def)
  note r = build_eq[OF d c b example_base_request_ok, of initial_syncParams]
  show ?thesis using p by (simp add: r hooked_ext(2) e)
qed

text \<open>
  C7, as amended. The three scans run over the auction context's bids list
  (\<open>bidderRequest.bids\<close>, when it is an array), not over the descriptor list. The extension
  field \<open>test\<close> is 1 if any entry of that list has \<open>params.testMode\<close> equal to 1; \<open>sspId\<close> is
  that of the first entry, in list order, with a truthy \<open>sspId\<close>, and \<open>siteId\<close> likewise.
  A field whose scan matches no entry is left as the base request of the converter
  library has it: absent when absent there, and with the value it has there otherwise.
\<close>

theorem ext_scans_context_bids:
  assumes "list_all (\<lambda>d. \<not> nullish d) ds" and "context_ok c"
    and "lib_buildRequest lib (built_imps lib ds) c converter_context = Some r0"
    and "base_request_ok r0"
  shows "snd (buildRequests lib sp ds c) \<noteq> None \<and>
         (list_ex (\<lambda>b. partner_param b ''testMode'' = num 1) (context_bids c) \<longrightarrow>
            opt_get (opt_get (request_data lib sp ds c) ''ext'') ''test'' = num 1) \<and>
         (\<not> list_ex (\<lambda>b. partner_param b ''testMode'' = num 1) (context_bids c) \<longrightarrow>
            opt_get (opt_get (request_data lib sp ds c) ''ext'') ''test'' =
              opt_get (opt_get r0 ''ext'') ''test'' \<and>
            (has_key (opt_get (request_data lib sp ds c) ''ext'') ''test'' \<longleftrightarrow>
             has_key (opt_get r0 ''ext'') ''test'')) \<and>
         (\<forall>b. first_with ''sspId'' (context_bids c) = Some b \<longrightarrow>
            opt_get (opt_get (request_data lib sp ds c) ''ext'') ''sspId'' =
              partner_param b ''sspId'') \<and>
         (first_with ''sspId'' (context_bids c) = None \<longrightarrow>
            opt_get (opt_get (request_data lib sp ds c) ''ext'') ''sspId'' =
              opt_get (opt_get r0 ''ext'') ''sspId'' \<and>
            (has_key (opt_get (request_data lib sp ds c) ''ext'') ''sspId'' \<longleftrightarrow>
             has_key (opt_get r0 ''ext'') ''sspId'')) \<and>
         (\<forall>b. first_with ''siteId'' (context_bids c) = Some b \<longrightarrow>
            opt_get (opt_get (request_data lib sp ds c) ''ext'') ''siteId'' =
              partner_param b ''siteId'') \<and>
         (first_with ''siteId'' (context_bids c) = None \<longrightarrow>
            opt_get (opt_get (request_data lib sp ds c) ''ext'') ''siteId'' =
              opt_get (opt_get r0 ''ext'') ''siteId'' \<and>
            (has_key (opt_get (request_data lib sp ds c) ''ext'') ''siteId'' \<longleftrightarrow>
             has_key (opt_get r0 ''ext'') ''siteId''))"
proof -
  note b = build_eq[OF assms, of sp]
  have o: "object_or_absent (opt_get r0 ''ext'')"
    using assms(4) by (simp add: base_request_ok_def)
  have e: "opt_get (request_data lib sp ds c) ''ext'' =
      merged_ext (opt_get r0 ''ext'') (context_bids c)"
    by (simp add: b(2) hooked_ext(1) base_props[OF assms(4)])
  have "snd (buildRequests lib sp ds c) \<noteq> None" by (simp add: b(1))
  then show ?thesis
    unfolding e
    by (simp add: merged_test[OF o] merged_sspId[OF o] merged_siteId[OF o])
qed

theorem ext_scans_context_bids_witness:
  "list_all (\<lambda>d. \<not> nullish d) [banner_bid] \<and> context_ok context_with_bids \<and>
   lib_buildRequest example_library (built_imps example_library [banner_bid])
     context_with_bids converter_context = Some (JObj [(''imp'', JArr [banner_imp]),
             (''id'', JStr ''generated-id'')]) \<and>
   opt_get (opt_get (request_data example_library initial_syncParams [banner_bid]
     context_with_bids) ''ext'') ''test'' = num 1 \<and>
   opt_get (opt_get (request_data example_library initial_syncParams [banner_bid]
     context_with_bids) ''ext'') ''sspId'' = JStr ''ssp123'' \<and>
   opt_get (opt_get (request_data example_library initial_syncParams [banner_bid]
     context_with_bids) ''ext'') ''siteId'' = JStr ''site456''"
proof -
  have d: "list_all (\<lambda>d. \<not> nullish d) [banner_bid]" by (simp add: banner_bid_def)
  have c: "context_ok context_with_bids"
    by (simp add: context_ok_def context_with_bids_def banner_bid_def partner_bid_def)
  note i = example_imp_banner
  have r: "lib_buildRequest example_library (built_imps example_library [banner_bid])
      context_with_bids converter_context = Some (JObj [(''imp'', JArr [banner_imp]),
             (''id'', JStr ''generated-id'')])"
    by (simp add: example_base_request i context_with_bids_def)
  have bs: "context_bids context_with_bids = [banner_bid, partner_bid]"
    by (simp add: context_bids_def context_with_bids_def)
  have t: "list_ex (\<lambda>b. partner_param b ''testMode'' = num 1) (context_bids context_with_bids)"
    by (simp add: bs partner_param_def partner_bid_def)
  have s1: "first_with ''sspId'' (context_bids context_with_bids) = Some partner_bid"
    by (simp add: bs first_with_def partner_param_def partner_bid_def banner_bid_def)
  have s2: "first_with ''siteId'' (context_bids context_with_bids) = Some partner_bid"
    by (simp add: bs first_with_def partner_param_def partner_bid_def banner_bid_def)
  have p: "partner_param partner_bid ''sspId'' = JStr ''ssp123''"
    "partner_param partner_bid ''siteId'' = JStr ''site456''"
    by (simp_all add: partner_param_def partner_bid_def)
  from ext_scans_context_bids [OF d c r example_base_request_ok, of initial_syncParams]
    t s1 s2 p d c r
  show ?thesis by simp
qed

text \<open>
  C9, as amended. The extension block of the request is a function of the auction
  context's bids list and of the extension block of the base request that the converter
  library built: two descriptor lists whose base requests have the same extension block
  give the same block under the same context, whatever the descriptors carry. When the
  context has no bids array, the extension block is the one of the base request: the
  hook sets none of \<open>test\<close>, \<open>sspId\<close> and \<open>siteId\<close>, and the request has each of them exactly
  when the base request has it.
\<close>

theorem ext_from_context_and_base:
  assumes "context_ok c"
    and "list_all (\<lambda>d. \<not> nullish d) ds"
    and "lib_buildRequest lib (built_imps lib ds) c converter_context = Some r0"
    and "base_request_ok r0"
    and "list_all (\<lambda>d. \<not> nullish d) ds'"
    and "lib_buildRequest lib' (built_imps lib' ds') c converter_context = Some r0'"
    and "base_request_ok r0'"
    and "opt_get r0 ''ext'' = opt_get r0' ''ext''"
  shows "snd (buildRequests lib sp ds c) \<noteq> None \<and> snd (buildRequests lib' sp' ds' c) \<noteq> None \<and>
         opt_get (request_data lib sp ds c) ''ext'' =
           opt_get (request_data lib' sp' ds' c) ''ext'' \<and>
         (\<not> isArray (opt_get c ''bids'') \<longrightarrow>
            opt_get (request_data lib sp ds c) ''ext'' = opt_get r0 ''ext'' \<and>
            (has_key (request_data lib sp ds c) ''ext'' \<longleftrightarrow> has_key r0 ''ext''))"
proof -
  note b = build_eq[OF assms(2,1,3,4), of sp]
  note b' = build_eq[OF assms(5,1,6,7), of sp']
  have e: "opt_get (request_data lib sp ds c) ''ext'' =
      merged_ext (opt_get r0 ''ext'') (context_bids c)"
    by (simp add: b(2) hooked_ext(1) base_props[OF assms(4)])
  have e': "opt_get (request_data lib' sp' ds' c) ''ext'' =
      merged_ext (opt_get r0' ''ext'') (context_bids c)"
    by (simp add: b'(2) hooked_ext(1) base_props[OF assms(7)])
  have k: "has_key (request_data lib sp ds c) ''ext'' \<longleftrightarrow>
      has_key r0 ''ext'' \<or> expected_ext (context_bids c) \<noteq> []"
    by (simp add: b(2) hooked_ext(2) base_keys[OF assms(4)])
  have "opt_get (request_data lib sp ds c) ''ext'' = opt_get r0 ''ext'' \<and>
      (has_key (request_data lib sp ds c) ''ext'' \<longleftrightarrow> has_key r0 ''ext'')"
    if n: "\<not> isArray (opt_get c ''bids'')"
    using no_bids_array[OF n] by (simp add: e k merged_ext_Nil)
  moreover have "opt_get (request_data lib sp ds c) ''ext'' =
      opt_get (request_data lib' sp' ds' c) ''ext''"
    by (simp add: e e' assms(8))
  ultimately show ?thesis using b(1) b'(1) by simp
qed

theorem ext_from_context_and_base_witness:
  "context_ok test_context \<and> list_all (\<lambda>d. \<not> nullish d) [partner_bid] \<and>
   list_all (\<lambda>d. \<not> nullish d) [banner_bid] \<and> \<not> isArray (opt_get test_context ''bids'') \<and>
   opt_get (request_data example_library initial_syncParams [partner_bid] test_context) ''ext'' =
     opt_get (request_data example_library initial_syncParams [banner_bid] test_context) ''ext'' \<and>
   \<not> has_key (request_data example_library initial_syncParams [partner_bid] test_context) ''ext''"
proof -
  have d: "list_all (\<lambda>d. \<not> nullish d) [partner_bid]" by (simp add: partner_bid_def)
  have d': "list_all (\<lambda>d. \<not> nullish d) [banner_bid]" by (simp add: banner_bid_def)
  have c: "context_ok test_context" by (simp add: context_ok_def test_context_def)
  have n: "\<not> isArray (opt_get test_context ''bids'')" by (simp add: test_context_def)
  have r: "lib_buildRequest example_library (built_imps example_library [partner_bid])
      test_context converter_context =
      Some (JObj [(''imp'', JArr (built_imps example_library [partner_bid])),
             (''id'', JStr ''generated-id'')])"
    by (simp add: example_base_request test_context_def)
  have r': "lib_buildRequest example_library (built_imps example_library [banner_bid])
      test_context converter_context =
      Some (JObj [(''imp'', JArr (built_imps example_library [banner_bid])),
             (''id'', JStr ''generated-id'')])"
    by (simp add: example_base_request test_context_def)
  have q: "opt_get (JObj [(''imp'', JArr (built_imps example_library [partner_bid])),
             (''id'', JStr ''generated-id'')]) ''ext'' =
      opt_get (JObj [(''imp'', JArr (built_imps example_library [banner_bid])),
             (''id'', JStr ''generated-id'')]) ''ext''"
    by simp
  from ext_from_context_and_base [OF c d r example_base_request_ok d' r'
      example_base_request_ok q, of initial_syncParams initial_syncParams] d d' c n
  show ?thesis by simp
qed

text \<open>
  C9, as stated, fails: the extension fields are not computed from the bids list
  alone. The context below has no bids array, and its first-party data carry an
  \<open>ext.sspId\<close>; the library puts them in the base request, the hook leaves them there, and
  the request built has the extension field \<open>sspId\<close>.
\<close>

theorem ext_field_without_bids_array:
  "\<not> isArray (opt_get context_fpd_ext ''bids'') \<and>
   snd (buildRequests example_library initial_syncParams [banner_bid] context_fpd_ext) \<noteq> None \<and>
   has_key (opt_get
     (request_data example_library initial_syncParams [banner_bid] context_fpd_ext) ''ext'')
     ''sspId'' \<and>
   opt_get (opt_get
     (request_data example_library initial_syncParams [banner_bid] context_fpd_ext) ''ext'')
     ''sspId'' = JStr ''fpd-ssp''"
proof -
  let ?r0 = "JObj [(''imp'', JArr (built_imps example_library [banner_bid])),
                   (''id'', JStr ''generated-id''),
                   (''ext'', JObj [(''sspId'', JStr ''fpd-ssp'')])]"
  have d: "list_all (\<lambda>d. \<not> nullish d) [banner_bid]" by (simp add: banner_bid_def)
  have c: "context_ok context_fpd_ext" by (simp add: context_ok_def context_fpd_ext_def)
  have n: "\<not> isArray (opt_get context_fpd_ext ''bids'')" by (simp add: context_fpd_ext_def)
  have b: "lib_buildRequest example_library (built_imps example_library [banner_bid])
      context_fpd_ext converter_context = Some ?r0"
    by (simp add: example_library_def example_buildRequest_def context_fpd_ext_def js_or_def)
  have o: "base_request_ok ?r0" by (simp add: base_request_ok_def object_or_absent_def)
  note r = build_eq[OF d c b o, of initial_syncParams]
  have e: "context_bids context_fpd_ext = []" using n by (rule no_bids_array)
  show ?thesis using n by (simp add: r hooked_ext(1) e merged_ext_Nil)
qed

subsection \<open>interpretResponse\<close>

lemma bid_response_eq:
  assumes "\<not> nullish bid" and "\<not> nullish body"
  shows "bid_response body bid = Some (normalized_bid body bid)"
proof -
  have gb: "\<And>k. get bid k = Some (opt_get bid k)" using assms(1) by (simp add: get_opt_get)
  have gr: "\<And>k. get body k = Some (opt_get body k)" using assms(2) by (simp add: get_opt_get)
  have n: "\<not> nullish (num 1)" "\<not> nullish (num 2)" "num 1 \<noteq> num 2"
    by (simp_all add: num_def)
  show ?thesis
  proof (cases "nullish (opt_get bid ''mtype'')")
    case True
    then have "opt_get bid ''mtype'' \<noteq> num 1" "opt_get bid ''mtype'' \<noteq> num 2" using n by auto
    then show ?thesis using True
      by (simp add: bid_response_def normalized_bid_def gb gr BANNER_def VIDEO_def
          DEFAULT_CURRENCY_def DEFAULT_TTL_def)
  next
    case False
    then show ?thesis using n
      by (simp add: bid_response_def normalized_bid_def gb gr BANNER_def VIDEO_def
          DEFAULT_CURRENCY_def DEFAULT_TTL_def)
  qed
qed

lemma seat_responses_eq:
  assumes "seat_well_formed sb" and "\<not> nullish body"
  shows "seat_responses body sb =
           Some (if qualifying sb then [normalized_bid body (first_bid sb)] else [])"
proof -
  have g: "get sb ''bid'' = Some (opt_get sb ''bid'')"
    using assms(1) by (simp add: seat_well_formed_def get_opt_get)
  show ?thesis
  proof (cases "opt_get sb ''bid''")
    case (JArr bs)
    show ?thesis
    proof (cases bs)
      case Nil
      then show ?thesis using g JArr by (simp add: seat_responses_def qualifying_def)
    next
      case (Cons b others)
      then have "\<not> nullish b" using assms(1) JArr
        by (simp add: seat_well_formed_def qualifying_def first_bid_def)
      then show ?thesis using g JArr Cons assms(2)
        by (simp add: seat_responses_def qualifying_def first_bid_def bid_response_eq)
    qed
  qed (simp_all add: seat_responses_def qualifying_def g)
qed

lemma for_each_seat_eq:
  assumes "list_all seat_well_formed sbs" and "\<not> nullish body"
  shows "for_each_seat body sbs =
           Some (map (\<lambda>sb. normalized_bid body (first_bid sb)) (filter qualifying sbs))"
  using assms by (induction sbs) (simp_all add: seat_responses_eq)

lemma interpret_no_seats:
  "\<not> isArray (seat_groups resp) \<Longrightarrow> interpretResponse resp req = Some []"
proof -
  assume a: "\<not> isArray (seat_groups resp)"
  show ?thesis
  proof (cases "truthy resp")
    case False
    then show ?thesis by (simp add: interpretResponse_def)
  next
    case True
    then have g: "get resp ''body'' = Some (opt_get resp ''body'')"
      by (simp add: get_opt_get truthy_not_nullish)
    show ?thesis
    proof (cases "truthy (opt_get resp ''body'')")
      case False
      then show ?thesis using True g by (simp add: interpretResponse_def)
    next
      case b: True
      then have g2: "get (opt_get resp ''body'') ''seatbid'' = Some (seat_groups resp)"
        by (simp add: get_opt_get truthy_not_nullish seat_groups_def)
      show ?thesis using True g b g2 a
        by (cases "seat_groups resp") (simp_all add: interpretResponse_def)
    qed
  qed
qed

lemma seat_groups_array:
  assumes "seat_groups resp = JArr sbs"
  shows "truthy resp" and "truthy (opt_get resp ''body'')"
proof -
  show b: "truthy (opt_get resp ''body'')"
    using assms unfolding seat_groups_def
    by (cases "opt_get resp ''body''") (auto simp add: opt_get_def num_def lookup_def)
  then show "truthy resp"
    by (cases resp) (auto simp add: opt_get_def num_def lookup_def)
qed

lemma interpret_seats:
  assumes "seat_groups resp = JArr sbs" and "list_all seat_well_formed sbs"
  shows "interpretResponse resp req =
           Some (map (\<lambda>sb. normalized_bid (opt_get resp ''body'') (first_bid sb))
                   (filter qualifying sbs))"
proof -
  note t = seat_groups_array[OF assms(1)]
  have g: "get resp ''body'' = Some (opt_get resp ''body'')"
    using t by (simp add: get_opt_get truthy_not_nullish)
  have g2: "get (opt_get resp ''body'') ''seatbid'' = Some (JArr sbs)"
    using t assms(1) by (simp add: get_opt_get truthy_not_nullish seat_groups_def)
  show ?thesis
    using t g g2 for_each_seat_eq[OF assms(2), of "opt_get resp ''body''"]
    by (simp add: interpretResponse_def truthy_not_nullish)
qed

lemma seat_responses_None: "\<not> seat_well_formed sb \<Longrightarrow> seat_responses body sb = None"
proof (cases "nullish sb")
  case True
  then have "get sb ''bid'' = None" by (simp add: get_eq_None_iff)
  then show ?thesis by (simp add: seat_responses_def)
next
  case False
  assume "\<not> seat_well_formed sb"
  with False obtain b others where
    q: "opt_get sb ''bid'' = JArr (b # others)" and n: "nullish b"
    by (auto simp add: seat_well_formed_def qualifying_def first_bid_def
        split: jsval.splits list.splits)
  have "get b ''impid'' = None" using n by (simp add: get_eq_None_iff)
  then have "bid_response body b = None" by (simp add: bid_response_def)
  then show ?thesis using False q by (simp add: seat_responses_def get_opt_get)
qed

lemma for_each_seat_None:
  "\<not> list_all seat_well_formed sbs \<Longrightarrow> for_each_seat body sbs = None"
proof (induction sbs)
  case Nil
  then show ?case by simp
next
  case (Cons sb sbs)
  show ?case
  proof (cases "seat_well_formed sb")
    case False
    then show ?thesis by (simp add: seat_responses_None)
  next
    case True
    then have "for_each_seat body sbs = None" using Cons by simp
    then show ?thesis by (cases "seat_responses body sb") simp_all
  qed
qed

lemma interpret_throws:
  assumes "seat_groups resp = JArr sbs" and "\<not> list_all seat_well_formed sbs"
  shows "interpretResponse resp req = None"
proof -
  note t = seat_groups_array[OF assms(1)]
  have g: "get resp ''body'' = Some (opt_get resp ''body'')"
    using t by (simp add: get_opt_get truthy_not_nullish)
  have g2: "get (opt_get resp ''body'') ''seatbid'' = Some (JArr sbs)"
    using t assms(1) by (simp add: get_opt_get truthy_not_nullish seat_groups_def)
  show ?thesis
    using t g g2 for_each_seat_None[OF assms(2), of "opt_get resp ''body''"]
    by (simp add: interpretResponse_def)
qed

lemma normalized_media_type:
  "opt_get bid ''mtype'' = num 1 \<Longrightarrow>
     opt_get (normalized_bid body bid) ''mediaType'' = JStr ''banner''"
  "opt_get bid ''mtype'' = num 2 \<Longrightarrow>
     opt_get (normalized_bid body bid) ''mediaType'' = JStr ''video'' \<and>
     opt_get (normalized_bid body bid) ''vastXml'' = opt_get bid ''adm''"
  "nullish (opt_get bid ''mtype'') \<Longrightarrow>
     opt_get (normalized_bid body bid) ''mediaType'' = JStr ''banner''"
  "\<not> nullish (opt_get bid ''mtype'') \<Longrightarrow> opt_get bid ''mtype'' \<noteq> num 1 \<Longrightarrow>
   opt_get bid ''mtype'' \<noteq> num 2 \<Longrightarrow> \<not> has_key (normalized_bid body bid) ''mediaType''"
  by (auto simp add: normalized_bid_def num_def)

text \<open>
  C3, as amended. The interpreter returns the empty list when the response is absent,
  when its body is absent and when \<open>body.seatbid\<close> is not a list. Otherwise, on seat groups
  that are objects holding bid records that are objects, it returns in the order of the
  seat groups one NormalizedBid for each group whose \<open>bid\<close> is a non-empty list, made from
  the first record of the group; a group whose \<open>bid\<close> is missing, not a list or empty gives
  nothing. On any other list of seat groups, one with a group that is \<open>undefined\<close> or \<open>null\<close>
  or with a qualifying group whose first record is, it throws.
\<close>

theorem interpret_one_bid_per_seat:
  "(nullish resp \<or> nullish (opt_get resp ''body'') \<or> \<not> isArray (seat_groups resp) \<longrightarrow>
      interpretResponse resp req = Some []) \<and>
   (\<forall>sbs. seat_groups resp = JArr sbs \<and> list_all seat_well_formed sbs \<longrightarrow>
      interpretResponse resp req =
        Some (map (\<lambda>sb. normalized_bid (opt_get resp ''body'') (first_bid sb))
                (filter qualifying sbs))) \<and>
   (\<forall>sbs. seat_groups resp = JArr sbs \<and> \<not> list_all seat_well_formed sbs \<longrightarrow>
      interpretResponse resp req = None)"
proof -
  have "\<not> isArray (seat_groups resp)" if "nullish resp \<or> nullish (opt_get resp ''body'')"
    using that unfolding seat_groups_def
    by (cases resp; cases "opt_get resp ''body''") (auto simp add: opt_get_def)
  then show ?thesis using interpret_no_seats interpret_seats interpret_throws by blast
qed

theorem interpret_one_bid_per_seat_witness:
  "seat_groups seats_response =
     JArr [JObj [(''bid'', JArr [])], JObj [(''bid'', JArr [banner_record, unknown_record])],
           JObj [(''bid'', JStr ''invalid'')], JObj [(''seat'', JStr ''s'')],
           JObj [(''bid'', JArr [video_record])]] \<and>
   list_all seat_well_formed
     [JObj [(''bid'', JArr [])], JObj [(''bid'', JArr [banner_record, unknown_record])],
      JObj [(''bid'', JStr ''invalid'')], JObj [(''seat'', JStr ''s'')],
      JObj [(''bid'', JArr [video_record])]] \<and>
   interpretResponse seats_response JUndefined =
     Some [normalized_bid (opt_get seats_response ''body'') banner_record,
           normalized_bid (opt_get seats_response ''body'') video_record] \<and>
   nullish JUndefined \<and> interpretResponse JUndefined JUndefined = Some [] \<and>
   seat_groups response_null_record = JArr [JObj [(''bid'', JArr [JNull])]] \<and>
   \<not> list_all seat_well_formed [JObj [(''bid'', JArr [JNull])]] \<and>
   interpretResponse response_null_record JNull = None"
proof -
  let ?sbs = "[JObj [(''bid'', JArr [])], JObj [(''bid'', JArr [banner_record, unknown_record])],
           JObj [(''bid'', JStr ''invalid'')], JObj [(''seat'', JStr ''s'')],
           JObj [(''bid'', JArr [video_record])]]"
  have s: "seat_groups seats_response = JArr ?sbs"
    by (simp add: seat_groups_def seats_response_def)
  have nb: "\<not> nullish banner_record" "\<not> nullish video_record"
    by (simp_all add: banner_record_def video_record_def)
  have w: "list_all seat_well_formed ?sbs"
    using nb by (simp add: seat_well_formed_def qualifying_def first_bid_def)
  have s': "seat_groups response_null_record = JArr [JObj [(''bid'', JArr [JNull])]]"
    by (simp add: seat_groups_def response_null_record_def)
  have w': "\<not> list_all seat_well_formed [JObj [(''bid'', JArr [JNull])]]"
    by (simp add: seat_well_formed_def qualifying_def first_bid_def)
  from interpret_one_bid_per_seat [of seats_response JUndefined] s w
  have "interpretResponse seats_response JUndefined =
      Some (map (\<lambda>sb. normalized_bid (opt_get seats_response ''body'') (first_bid sb))
              (filter qualifying ?sbs))" by blast
  moreover from interpret_one_bid_per_seat [of JUndefined JUndefined]
  have "interpretResponse JUndefined JUndefined = Some []" by simp
  moreover from interpret_one_bid_per_seat [of response_null_record JNull] s' w'
  have "interpretResponse response_null_record JNull = None" by blast
  ultimately show ?thesis using s w s' w' by (simp add: qualifying_def first_bid_def)
qed

text \<open>
  C3, as stated, fails where a seat group or the first record of a qualifying group is
  \<open>null\<close>: the response has a list of seat groups, and the interpreter throws on reading
  \<open>bid\<close> of the group (line 198) or \<open>impid\<close> of the record (line 202).
\<close>

theorem interpret_throws_on_null:
  "seat_groups response_null_seat = JArr [JNull] \<and>
   interpretResponse response_null_seat JUndefined = None \<and>
   seat_groups response_null_record = JArr [JObj [(''bid'', JArr [JNull])]] \<and>
   interpretResponse response_null_record JUndefined = None"
  by (simp add: seat_groups_def response_null_seat_def response_null_record_def
      interpretResponse_def seat_responses_def bid_response_def)

text \<open>
  C4. Each NormalizedBid returned has its media type resolved from the markup-type
  code of the record it was made from: code 1 gives \<open>banner\<close>; code 2 gives \<open>video\<close> and a
  \<open>vastXml\<close> equal to the markup payload; a null or absent code gives \<open>banner\<close>; any other
  code gives a NormalizedBid, returned like the others, without the key \<open>mediaType\<close>.
\<close>

theorem media_type_resolution:
  assumes "seat_groups resp = JArr sbs" and "list_all seat_well_formed sbs"
  shows "\<exists>rs. interpretResponse resp req = Some rs \<and>
           length rs = length (filter qualifying sbs) \<and>
           (\<forall>i<length rs.
              let bid = first_bid (filter qualifying sbs ! i); mtype = opt_get bid ''mtype'' in
                (mtype = num 1 \<longrightarrow> opt_get (rs ! i) ''mediaType'' = JStr ''banner'') \<and>
                (mtype = num 2 \<longrightarrow>
                   opt_get (rs ! i) ''mediaType'' = JStr ''video'' \<and>
                   opt_get (rs ! i) ''vastXml'' = opt_get bid ''adm'') \<and>
                (nullish mtype \<longrightarrow> opt_get (rs ! i) ''mediaType'' = JStr ''banner'') \<and>
                (\<not> nullish mtype \<and> mtype \<noteq> num 1 \<and> mtype \<noteq> num 2 \<longrightarrow>
                   \<not> has_key (rs ! i) ''mediaType''))"
proof -
  let ?rs = "map (\<lambda>sb. normalized_bid (opt_get resp ''body'') (first_bid sb))
               (filter qualifying sbs)"
  have r: "interpretResponse resp req = Some ?rs" using assms by (rule interpret_seats)
  have "\<forall>i<length ?rs.
      let bid = first_bid (filter qualifying sbs ! i); mtype = opt_get bid ''mtype'' in
        (mtype = num 1 \<longrightarrow> opt_get (?rs ! i) ''mediaType'' = JStr ''banner'') \<and>
        (mtype = num 2 \<longrightarrow>
           opt_get (?rs ! i) ''mediaType'' = JStr ''video'' \<and>
           opt_get (?rs ! i) ''vastXml'' = opt_get bid ''adm'') \<and>
        (nullish mtype \<longrightarrow> opt_get (?rs ! i) ''mediaType'' = JStr ''banner'') \<and>
        (\<not> nullish mtype \<and> mtype \<noteq> num 1 \<and> mtype \<noteq> num 2 \<longrightarrow>
           \<not> has_key (?rs ! i) ''mediaType'')"
    using normalized_media_type by (simp add: Let_def)
  moreover have "length ?rs = length (filter qualifying sbs)" by simp
  ultimately show ?thesis using r by blast
qed

theorem media_type_resolution_witness:
  "seat_groups media_response =
     JArr [JObj [(''bid'', JArr [banner_record])], JObj [(''bid'', JArr [video_record])],
           JObj [(''bid'', JArr [untyped_record])], JObj [(''bid'', JArr [unknown_record])]] \<and>
   list_all seat_well_formed
     [JObj [(''bid'', JArr [banner_record])], JObj [(''bid'', JArr [video_record])],
      JObj [(''bid'', JArr [untyped_record])], JObj [(''bid'', JArr [unknown_record])]] \<and>
   (\<exists>rs. interpretResponse media_response JUndefined = Some rs \<and> length rs = 4 \<and>
      opt_get (rs ! 0) ''mediaType'' = JStr ''banner'' \<and>
      opt_get (rs ! 1) ''mediaType'' = JStr ''video'' \<and>
      opt_get (rs ! 1) ''vastXml'' = JStr ''<VAST/>'' \<and>
      opt_get (rs ! 2) ''mediaType'' = JStr ''banner'' \<and>
      \<not> has_key (rs ! 3) ''mediaType'')"
proof -
  let ?sbs = "[JObj [(''bid'', JArr [banner_record])], JObj [(''bid'', JArr [video_record])],
           JObj [(''bid'', JArr [untyped_record])], JObj [(''bid'', JArr [unknown_record])]]"
  have s: "seat_groups media_response = JArr ?sbs"
    by (simp add: seat_groups_def media_response_def)
  have nb: "\<not> nullish banner_record" "\<not> nullish video_record" "\<not> nullish untyped_record"
    "\<not> nullish unknown_record"
    by (simp_all add: banner_record_def video_record_def untyped_record_def unknown_record_def)
  have w: "list_all seat_well_formed ?sbs"
    using nb by (simp add: seat_well_formed_def qualifying_def first_bid_def)
  have f: "filter qualifying ?sbs = ?sbs" by (simp add: qualifying_def)
  have m: "opt_get banner_record ''mtype'' = num 1" "opt_get video_record ''mtype'' = num 2"
    "opt_get video_record ''adm'' = JStr ''<VAST/>''"
    "opt_get untyped_record ''mtype'' = JUndefined" "opt_get unknown_record ''mtype'' = num 999"
    by (simp_all add: banner_record_def video_record_def untyped_record_def unknown_record_def)
  have n: "num 999 \<noteq> num 1" "num 999 \<noteq> num 2" "\<not> nullish (num 999)" "num 1 \<noteq> num 2"
    by (simp_all add: num_def)
  from media_type_resolution [OF s w, of JUndefined] obtain rs where
    r: "interpretResponse media_response JUndefined = Some rs" "length rs = length ?sbs"
    and a: "\<forall>i<length rs.
      let bid = first_bid (?sbs ! i); mtype = opt_get bid ''mtype'' in
        (mtype = num 1 \<longrightarrow> opt_get (rs ! i) ''mediaType'' = JStr ''banner'') \<and>
        (mtype = num 2 \<longrightarrow>
           opt_get (rs ! i) ''mediaType'' = JStr ''video'' \<and>
           opt_get (rs ! i) ''vastXml'' = opt_get bid ''adm'') \<and>
        (nullish mtype \<longrightarrow> opt_get (rs ! i) ''mediaType'' = JStr ''banner'') \<and>
        (\<not> nullish mtype \<and> mtype \<noteq> num 1 \<and> mtype \<noteq> num 2 \<longrightarrow>
           \<not> has_key (rs ! i) ''mediaType'')"
    unfolding f by blast
  have l: "length rs = 4" using r(2) by simp
  have "opt_get (rs ! 0) ''mediaType'' = JStr ''banner''"
    using a[rule_format, of 0] l m by (simp add: first_bid_def Let_def)
  moreover have "opt_get (rs ! 1) ''mediaType'' = JStr ''video'' \<and>
      opt_get (rs ! 1) ''vastXml'' = JStr ''<VAST/>''"
    using a[rule_format, of 1] l m by (simp add: first_bid_def Let_def)
  moreover have "opt_get (rs ! 2) ''mediaType'' = JStr ''banner''"
    using a[rule_format, of 2] l m by (simp add: first_bid_def Let_def)
  moreover have "\<not> has_key (rs ! 3) ''mediaType''"
    using a[rule_format, of 3] l m n by (simp add: first_bid_def Let_def)
  ultimately show ?thesis using r(1) l s w by blast
qed

subsection \<open>The sync parameters and the sync URL\<close>

lemma stored_sync_params:
  "truthy (opt_get d ''params'') \<Longrightarrow>
   fst (buildRequests lib sp (d # rest) c) =
     JObj [(''sspId'', partner_param d ''sspId''), (''siteId'', partner_param d ''siteId''),
           (''sspUserId'', resolved_user_id d c)]"
proof -
  assume t: "truthy (opt_get d ''params'')"
  then have "\<not> nullish d" by (cases d) (simp_all add: opt_get_def)
  then have g: "get d ''params'' = Some (opt_get d ''params'')" by (simp add: get_opt_get)
  show ?thesis
    using t g
    by (simp add: buildRequests_def partner_param_def resolved_user_id_def
        getPublisherUserId_def Let_def)
qed

lemma kept_sync_params:
  "\<not> truthy (opt_get d ''params'') \<Longrightarrow> fst (buildRequests lib sp (d # rest) c) = sp"
  by (cases "get d ''params''") (simp_all add: buildRequests_def opt_get_def)

lemma sublist_join: "x \<in> set ps \<Longrightarrow> sublist x (join_with sep ps)"
proof (induction sep ps rule: join_with.induct)
  case (3 sep s t ss)
  show ?case
  proof (cases "x = s")
    case True
    then show ?thesis by simp
  next
    case False
    then have "sublist x (join_with sep (t # ss))" using 3 by simp
    then obtain p q where "join_with sep (t # ss) = p @ x @ q" by (auto simp add: sublist_def)
    then have "join_with sep (s # t # ss) = (s @ sep @ p) @ x @ q" by simp
    then show ?thesis unfolding sublist_def by blast
  qed
qed simp_all

lemma privacy_params_returns:
  assumes "gpp_sections_listed gpp"
  shows "\<exists>ps. privacy_params rt g u gpp = Some ps"
proof -
  have gg: "\<And>k. truthy g \<Longrightarrow> get g k = Some (opt_get g k)"
    by (simp add: get_opt_get truthy_not_nullish)
  show ?thesis
  proof (cases "truthy (opt_get gpp ''gppString'') \<and>
      truthy (opt_get (opt_get gpp ''applicableSections'') ''length'')")
    case True
    then obtain xs where "opt_get gpp ''applicableSections'' = JArr xs"
      using assms by (cases "opt_get gpp ''applicableSections''") (simp_all add: gpp_sections_listed_def)
    then show ?thesis using True by (cases "truthy g") (simp_all add: privacy_params_def gg)
  next
    case False
    then show ?thesis by (cases "truthy g") (auto simp add: privacy_params_def gg)
  qed
qed

lemma getUserSyncs_url:
  assumes "sync_enabled opts" and "privacy_params rt g u gpp = Some ps"
    and "custom_params rt sp = Some cs"
  shows "getUserSyncs rt sp opts rs g u gpp =
           Some [JObj [(''type'',
                        JStr (if truthy (opt_get opts ''iframeEnabled'') then ''iframe''
                              else ''image'')),
                       (''url'',
                        JStr (SYNC_URL @ ''?'' @
                              join_with ''&''
                                (ps @ cs @
                                 [''iframe_enabled='' @
                                  (if truthy (opt_get opts ''iframeEnabled'') then ''true''
                                   else ''false'')])))]]"
proof -
  have "\<not> nullish opts"
    using assms(1) by (cases opts) (simp_all add: sync_enabled_def opt_get_def)
  then have g: "\<And>k. get opts k = Some (opt_get opts k)" by (simp add: get_opt_get)
  show ?thesis
    using assms by (auto simp add: getUserSyncs_def g sync_enabled_def)
qed

lemma sync_url_contains:
  assumes "sync_enabled opts" and "gpp_sections_listed gpp"
    and "custom_params rt sp = Some cs"
  shows "\<exists>ty url. getUserSyncs rt sp opts rs g u gpp =
                    Some [JObj [(''type'', JStr ty), (''url'', JStr url)]] \<and>
                  (\<forall>p\<in>set cs. sublist p url)"
proof -
  from privacy_params_returns[OF assms(2)] obtain ps where
    ps: "privacy_params rt g u gpp = Some ps" by blast
  let ?all = "ps @ cs @ [''iframe_enabled='' @
      (if truthy (opt_get opts ''iframeEnabled'') then ''true'' else ''false'')]"
  have "\<forall>p\<in>set cs. sublist p (SYNC_URL @ ''?'' @ join_with ''&'' ?all)"
  proof
    fix p assume "p \<in> set cs"
    then have "sublist p (join_with ''&'' ?all)" by (simp add: sublist_join)
    then obtain a b where "join_with ''&'' ?all = a @ p @ b" by (auto simp add: sublist_def)
    then have "SYNC_URL @ ''?'' @ join_with ''&'' ?all = (SYNC_URL @ ''?'' @ a) @ p @ b" by simp
    then show "sublist p (SYNC_URL @ ''?'' @ join_with ''&'' ?all)"
      unfolding sublist_def by blast
  qed
  then show ?thesis using getUserSyncs_url[OF assms(1) ps assms(3), of rs] by blast
qed

lemma custom_params_stored:
  "custom_params rt (JObj [(''sspId'', a), (''siteId'', b), (''sspUserId'', c)]) =
     Some ((if truthy a then [''ssp_id='' @ encodeURIComponent rt a] else []) @
           (if truthy b then [''ssp_site_id='' @ encodeURIComponent rt b] else []) @
           (if truthy c then [''ssp_user_id='' @ encodeURIComponent rt c] else []))"
  by (simp add: custom_params_def)

text \<open>
  C8. When the first descriptor has a partner-parameter bag, the builder stores its
  \<open>sspId\<close> and \<open>siteId\<close> and, as \<open>sspUserId\<close>, the bag's \<open>sspUserId\<close> if it has one (a truthy
  one), else the context's \<open>ortb2.user.id\<close> if it has one, else \<open>null\<close>. So when the bag's
  \<open>sspUserId\<close> is a non-empty string, the URL that a later \<open>getUserSyncs\<close> with syncing
  enabled returns contains \<open>ssp_user_id=\<close> followed by that string, URI-encoded, whatever
  the context's identifier is.
\<close>

theorem sync_params_stored:
  assumes "truthy (opt_get d ''params'')"
  shows "fst (buildRequests lib sp (d # rest) c) =
           JObj [(''sspId'', partner_param d ''sspId''), (''siteId'', partner_param d ''siteId''),
                 (''sspUserId'',
                  if truthy (partner_param d ''sspUserId'') then partner_param d ''sspUserId''
                  else if truthy (deepAccess c [''ortb2'', ''user'', ''id''])
                       then deepAccess c [''ortb2'', ''user'', ''id'']
                  else JNull)] \<and>
         (\<forall>a. partner_param d ''sspUserId'' = JStr a \<and> a \<noteq> [] \<and>
               sync_enabled opts \<and> gpp_sections_listed gpp \<longrightarrow>
            (\<exists>ty url. getUserSyncs rt (fst (buildRequests lib sp (d # rest) c)) opts rs g u gpp =
                        Some [JObj [(''type'', JStr ty), (''url'', JStr url)]] \<and>
                      sublist (''ssp_user_id='' @ encodeURIComponent rt (JStr a)) url))"
proof -
  note s = stored_sync_params[OF assms, of lib sp rest c]
  have "\<exists>ty url. getUserSyncs rt (fst (buildRequests lib sp (d # rest) c)) opts rs g u gpp =
                   Some [JObj [(''type'', JStr ty), (''url'', JStr url)]] \<and>
                 sublist (''ssp_user_id='' @ encodeURIComponent rt (JStr a)) url"
    if a: "partner_param d ''sspUserId'' = JStr a" "a \<noteq> []"
      and e: "sync_enabled opts" "gpp_sections_listed gpp" for a
  proof -
    have r: "resolved_user_id d c = JStr a" using a by (simp add: resolved_user_id_def)
    let ?cs = "(if truthy (partner_param d ''sspId'')
                then [''ssp_id='' @ encodeURIComponent rt (partner_param d ''sspId'')] else []) @
               (if truthy (partner_param d ''siteId'')
                then [''ssp_site_id='' @ encodeURIComponent rt (partner_param d ''siteId'')] else []) @
               [''ssp_user_id='' @ encodeURIComponent rt (JStr a)]"
    have c: "custom_params rt (fst (buildRequests lib sp (d # rest) c)) = Some ?cs"
      unfolding s r custom_params_stored using a(2) by simp
    from sync_url_contains[OF e c, of rs g u] show ?thesis by auto
  qed
  then show ?thesis using s by (simp add: resolved_user_id_def)
qed

theorem sync_params_stored_witness:
  "truthy (opt_get bid_user_A ''params'') \<and>
   partner_param bid_user_A ''sspUserId'' = JStr ''A'' \<and>
   deepAccess context_user_B [''ortb2'', ''user'', ''id''] = JStr ''B'' \<and>
   sync_enabled iframe_options \<and> gpp_sections_listed JUndefined \<and>
   fst (buildRequests example_library initial_syncParams [bid_user_A] context_user_B) =
     JObj [(''sspId'', JUndefined), (''siteId'', JUndefined), (''sspUserId'', JStr ''A'')] \<and>
   (\<exists>ty url.
      getUserSyncs runtime0 (fst (buildRequests example_library initial_syncParams [bid_user_A] context_user_B))
        iframe_options (JArr []) JUndefined JUndefined JUndefined =
        Some [JObj [(''type'', JStr ty), (''url'', JStr url)]] \<and>
      sublist ''ssp_user_id=A'' url)"
proof -
  have t: "truthy (opt_get bid_user_A ''params'')" by (simp add: bid_user_A_def)
  have p: "partner_param bid_user_A ''sspUserId'' = JStr ''A''"
    "partner_param bid_user_A ''sspId'' = JUndefined"
    "partner_param bid_user_A ''siteId'' = JUndefined"
    by (simp_all add: partner_param_def bid_user_A_def)
  have b: "deepAccess context_user_B [''ortb2'', ''user'', ''id''] = JStr ''B''"
    by (simp add: context_user_B_def)
  have e: "sync_enabled iframe_options" "gpp_sections_listed JUndefined"
    by (simp_all add: sync_enabled_def iframe_options_def gpp_sections_listed_def)
  have u: "encodeURIComponent runtime0 (JStr ''A'') = ''A''"
    by (simp add: encodeURIComponent_def uri_unreserved_def)
  note th = sync_params_stored [OF t, of example_library initial_syncParams "[]" context_user_B iframe_options
      JUndefined runtime0 "JArr []" JUndefined JUndefined]
  have f: "fst (buildRequests example_library initial_syncParams [bid_user_A] context_user_B) =
      JObj [(''sspId'', JUndefined), (''siteId'', JUndefined), (''sspUserId'', JStr ''A'')]"
    using th[THEN conjunct1] p by simp
  have "\<exists>ty url.
      getUserSyncs runtime0 (fst (buildRequests example_library initial_syncParams [bid_user_A] context_user_B))
        iframe_options (JArr []) JUndefined JUndefined JUndefined =
        Some [JObj [(''type'', JStr ty), (''url'', JStr url)]] \<and>
      sublist (''ssp_user_id='' @ encodeURIComponent runtime0 (JStr ''A'')) url"
    using th[THEN conjunct2, THEN spec, of "''A''"] p(1) e by blast
  then have "\<exists>ty url.
      getUserSyncs runtime0 (fst (buildRequests example_library initial_syncParams [bid_user_A] context_user_B))
        iframe_options (JArr []) JUndefined JUndefined JUndefined =
        Some [JObj [(''type'', JStr ty), (''url'', JStr url)]] \<and>
      sublist ''ssp_user_id=A'' url"
    unfolding u by simp
  with f have "fst (buildRequests example_library initial_syncParams [bid_user_A] context_user_B) =
      JObj [(''sspId'', JUndefined), (''siteId'', JUndefined), (''sspUserId'', JStr ''A'')] \<and>
    (\<exists>ty url.
      getUserSyncs runtime0 (fst (buildRequests example_library initial_syncParams [bid_user_A] context_user_B))
        iframe_options (JArr []) JUndefined JUndefined JUndefined =
        Some [JObj [(''type'', JStr ty), (''url'', JStr url)]] \<and>
      sublist ''ssp_user_id=A'' url)"
    by blast
  then show ?thesis using t p(1) b e by blast
qed

text \<open>
  C10. When the first descriptor has no partner-parameter bag, the builder leaves the
  stored sync parameters as they are, so \<open>getUserSyncs\<close> returns after it what it returned
  before it, and every partner parameter that the stored values gave before the call
  is in the URL after it.
\<close>

theorem sync_params_kept:
  assumes "\<not> truthy (opt_get d ''params'')"
  shows "fst (buildRequests lib sp (d # rest) c) = sp \<and>
         getUserSyncs rt (fst (buildRequests lib sp (d # rest) c)) opts rs g u gpp =
           getUserSyncs rt sp opts rs g u gpp \<and>
         (\<forall>cs. custom_params rt sp = Some cs \<and> sync_enabled opts \<and> gpp_sections_listed gpp \<longrightarrow>
            (\<exists>ty url. getUserSyncs rt (fst (buildRequests lib sp (d # rest) c)) opts rs g u gpp =
                        Some [JObj [(''type'', JStr ty), (''url'', JStr url)]] \<and>
                      (\<forall>p\<in>set cs. sublist p url)))"
  using kept_sync_params[OF assms, of lib sp rest c] sync_url_contains[of opts gpp rt sp _ rs g u]
  by simp

theorem sync_params_kept_witness:
  "\<not> truthy (opt_get bid_without_params ''params'') \<and>
   sync_enabled iframe_options \<and> gpp_sections_listed JUndefined \<and>
   fst (buildRequests example_library initial_syncParams [sync_bid] test_context) =
     JObj [(''sspId'', JStr ''ssp789''), (''siteId'', JStr ''site012''),
           (''sspUserId'', JStr ''user345'')] \<and>
   fst (buildRequests example_library (fst (buildRequests example_library initial_syncParams [sync_bid] test_context))
          [bid_without_params] test_context) =
     fst (buildRequests example_library initial_syncParams [sync_bid] test_context) \<and>
   (\<exists>ty url.
      getUserSyncs runtime0
        (fst (buildRequests example_library (fst (buildRequests example_library initial_syncParams [sync_bid] test_context))
               [bid_without_params] test_context))
        iframe_options (JArr []) JUndefined JUndefined JUndefined =
        Some [JObj [(''type'', JStr ty), (''url'', JStr url)]] \<and>
      sublist ''ssp_id=ssp789'' url \<and> sublist ''ssp_site_id=site012'' url \<and>
      sublist ''ssp_user_id=user345'' url)"
proof -
  let ?sp = "fst (buildRequests example_library initial_syncParams [sync_bid] test_context)"
  have n: "\<not> truthy (opt_get bid_without_params ''params'')"
    by (simp add: bid_without_params_def)
  have e: "sync_enabled iframe_options" "gpp_sections_listed JUndefined"
    by (simp_all add: sync_enabled_def iframe_options_def gpp_sections_listed_def)
  have t: "truthy (opt_get sync_bid ''params'')" by (simp add: sync_bid_def)
  have p: "partner_param sync_bid ''sspId'' = JStr ''ssp789''"
    "partner_param sync_bid ''siteId'' = JStr ''site012''"
    "resolved_user_id sync_bid test_context = JStr ''user345''"
    by (simp_all add: partner_param_def sync_bid_def resolved_user_id_def)
  have sp: "?sp = JObj [(''sspId'', JStr ''ssp789''), (''siteId'', JStr ''site012''),
      (''sspUserId'', JStr ''user345'')]"
    using stored_sync_params[OF t, of example_library initial_syncParams "[]" test_context] p by simp
  have u: "encodeURIComponent runtime0 (JStr ''ssp789'') = ''ssp789''"
    "encodeURIComponent runtime0 (JStr ''site012'') = ''site012''"
    "encodeURIComponent runtime0 (JStr ''user345'') = ''user345''"
    by (simp_all add: encodeURIComponent_def uri_unreserved_def)
  have c: "custom_params runtime0 ?sp =
      Some [''ssp_id=ssp789'', ''ssp_site_id=site012'', ''ssp_user_id=user345'']"
    unfolding sp custom_params_stored using u by simp
  from sync_params_kept [OF n, of example_library ?sp "[]" test_context runtime0 iframe_options "JArr []"
      JUndefined JUndefined JUndefined] c e
  have k: "fst (buildRequests example_library ?sp [bid_without_params] test_context) = ?sp"
    and "\<exists>ty url.
      getUserSyncs runtime0 (fst (buildRequests example_library ?sp [bid_without_params] test_context))
        iframe_options (JArr []) JUndefined JUndefined JUndefined =
        Some [JObj [(''type'', JStr ty), (''url'', JStr url)]] \<and>
      (\<forall>p\<in>set [''ssp_id=ssp789'', ''ssp_site_id=site012'', ''ssp_user_id=user345''].
         sublist p url)"
    by blast+
  then obtain ty url where
    "getUserSyncs runtime0 (fst (buildRequests example_library ?sp [bid_without_params] test_context))
        iframe_options (JArr []) JUndefined JUndefined JUndefined =
        Some [JObj [(''type'', JStr ty), (''url'', JStr url)]]"
    "sublist ''ssp_id=ssp789'' url" "sublist ''ssp_site_id=site012'' url"
    "sublist ''ssp_user_id=user345'' url"
    by auto
  then show ?thesis using n e sp k by blast
qed

end
